theory Spec2Isabelle
  imports Complex_Main
begin

section \<open>Common values\<close>

text \<open>
  A thrown JavaScript value is an error object with a \<open>name\<close> and a \<open>message\<close>.
  Console output is not part of the model: \<open>configs.debug\<close> only selects what is
  printed, so the flag appears only where reading it can itself fail.
  JavaScript numbers are modelled as exact rationals.  The only numbers computed are the
  retry delays of the signaling channel, and nothing in the class writes \<open>delay\<close>,
  \<open>backoffFactor\<close> or \<open>maxDelay\<close> after the constructor: with its values 1000, 1.5
  and 5000 every product below the cap is a dyadic rational that a double holds exactly,
  and every other product is above the cap.  Statements about delays are therefore made
  for these values.
\<close>

datatype js_error = JsError (err_name: string) (err_message: string)

datatype promise = Pending | Resolved bool | Rejected js_error

section \<open>Signaling channel: class SocketIO\<close>

record reconnectionConfig =
  enabled :: bool
  attempts :: nat
  delay :: rat
  maxDelay :: rat
  backoffFactor :: rat
  currentAttempt :: nat
  timeout :: "rat option"

text \<open>
  \<open>timeout\<close> is the stored timer handle (\<open>None\<close> is \<open>null\<close>); the model keeps the
  delay the timer was armed with in place of the opaque handle.

  The listeners that one call of \<open>setConnection(true, token)\<close> registers are a
  \<open>handshake\<close>: in phase \<open>AwaitConnect\<close> the once-listeners \<open>connectHandler\<close> and
  \<open>errorHandler\<close> are registered, in phase \<open>AwaitReady\<close> only the
  \<open>connection:ready\<close> listener is, in phase \<open>Detached\<close> none.  \<open>outcome\<close> is the state
  of the promise the call returned.
\<close>

datatype phase = AwaitConnect | AwaitReady | Detached

record handshake =
  phase :: phase
  outcome :: promise

record socket_obj =
  connected :: bool
  query :: "string option"
  handshakes :: "handshake list"

record SocketIO =
  socket :: "socket_obj option"
  initialized :: bool
  reconnectionConfig :: reconnectionConfig

text \<open>
  The methods \<open>_attemptReconnection\<close> and \<open>_resetReconnectionAttempts\<close> are
  \<open>attemptReconnection\<close> and \<open>resetReconnectionAttempts\<close> below.
  What the channel does to the outside: timers, opening and closing the transport, and
  local application notifications.  (The class holds no reference to the application
  object, so no function below produces \<open>Notify\<close>; the constructor is there so that
  statements about notifications can be written.)
\<close>

datatype socket_effect = ClearTimeout | SetTimeout rat | SocketOpen | SocketClose | Notify string

datatype socket_event = Connect | Disconnect string | ConnectError string | ConnectionReady

definition SocketIO_constructor :: SocketIO where
  "SocketIO_constructor =
     \<lparr>socket = None, initialized = False,
      reconnectionConfig =
        \<lparr>enabled = True, attempts = 5, delay = 1000, maxDelay = 5000,
         backoffFactor = 3 / 2, currentAttempt = 0, timeout = None\<rparr>\<rparr>"

definition initialize :: "SocketIO \<Rightarrow> SocketIO" where
  "initialize s =
     s\<lparr>socket := Some \<lparr>connected = False, query = None, handshakes = []\<rparr>,
       initialized := True\<rparr>"

definition isConnected :: "SocketIO \<Rightarrow> bool" where
  "isConnected s =
     (case socket s of None \<Rightarrow> False | Some so \<Rightarrow> initialized s \<and> connected so)"

definition clearPending :: "reconnectionConfig \<Rightarrow> socket_effect list \<times> reconnectionConfig" where
  "clearPending rc =
     (case timeout rc of
        None \<Rightarrow> ([], rc)
      | Some h \<Rightarrow> ([ClearTimeout], rc\<lparr>timeout := None\<rparr>))"

definition retryDelay :: "reconnectionConfig \<Rightarrow> rat" where
  "retryDelay rc = min (delay rc * backoffFactor rc ^ currentAttempt rc) (maxDelay rc)"

definition attemptReconnection :: "SocketIO \<Rightarrow> socket_effect list \<times> SocketIO" where
  "attemptReconnection s =
     (if isConnected s \<or> \<not> enabled (reconnectionConfig s) then ([], s)
      else
        let (fx, rc) = clearPending (reconnectionConfig s) in
        if attempts rc \<le> currentAttempt rc then (fx, s\<lparr>reconnectionConfig := rc\<rparr>)
        else
          let d = retryDelay rc in
          (fx @ [SetTimeout d],
           s\<lparr>reconnectionConfig :=
               rc\<lparr>currentAttempt := currentAttempt rc + 1, timeout := Some d\<rparr>\<rparr>))"

definition resetReconnectionAttempts :: "SocketIO \<Rightarrow> socket_effect list \<times> SocketIO" where
  "resetReconnectionAttempts s =
     (let (fx, rc) =
        clearPending ((reconnectionConfig s)\<lparr>enabled := True, currentAttempt := 0\<rparr>)
      in (fx, s\<lparr>reconnectionConfig := rc\<rparr>))"

definition disconnect :: "SocketIO \<Rightarrow> socket_effect list \<times> SocketIO" where
  "disconnect s =
     (let (fx, rc) = clearPending ((reconnectionConfig s)\<lparr>enabled := False\<rparr>);
          fx' = (case socket s of None \<Rightarrow> [] | Some so \<Rightarrow> [SocketClose])
      in (fx @ fx', s\<lparr>socket := None, initialized := False, reconnectionConfig := rc\<rparr>))"

text \<open>
  The listeners of one handshake.  \<open>connectHandler\<close> removes itself and
  \<open>errorHandler\<close> (\<open>cleanup\<close>) and registers the \<open>connection:ready\<close> listener;
  \<open>errorHandler\<close> removes both and rejects; the \<open>connection:ready\<close> listener resolves,
  which settles the promise only while it is pending.
\<close>

definition settle :: "promise \<Rightarrow> promise \<Rightarrow> promise" where
  "settle p v = (case p of Pending \<Rightarrow> v | Resolved b \<Rightarrow> p | Rejected e \<Rightarrow> p)"

fun handshake_on :: "socket_event \<Rightarrow> handshake \<Rightarrow> handshake" where
  "handshake_on Connect h =
     (if phase h = AwaitConnect then h\<lparr>phase := AwaitReady\<rparr> else h)"
| "handshake_on (ConnectError m) h =
     (if phase h = AwaitConnect
      then h\<lparr>phase := Detached,
             outcome := settle (outcome h) (Rejected (JsError ''Error'' (''Connection failed: '' @ m)))\<rparr>
      else h)"
| "handshake_on ConnectionReady h =
     (if phase h = AwaitReady then h\<lparr>outcome := settle (outcome h) (Resolved True)\<rparr> else h)"
| "handshake_on (Disconnect r) h = h"

datatype promise_ref = Settled promise | Listening nat

text \<open>
  \<open>setConnection\<close> throws when the object is not initialised, closes the channel for
  \<open>status = false\<close>, and otherwise resets the retry state, stores the token, registers
  a handshake and opens the transport.  The promise it returns is either settled at once
  or the outcome of the handshake at the returned position.  An executor that throws
  (no socket object) rejects the promise.
\<close>

definition setConnection ::
  "bool \<Rightarrow> string option \<Rightarrow> SocketIO \<Rightarrow> js_error + (socket_effect list \<times> SocketIO \<times> promise_ref)" where
  "setConnection status token s =
     (if \<not> initialized s
      then Inl (JsError ''Error'' ''Socket not initialized. Call initial() first.'')
      else if \<not> status
      then (let (fx, s') = disconnect s in Inr (fx, s', Settled (Resolved False)))
      else
        let (fx, s1) = resetReconnectionAttempts s in
        case socket s1 of
          None \<Rightarrow> Inr (fx, s1, Settled (Rejected (JsError ''TypeError'' ''socket is null'')))
        | Some so \<Rightarrow>
            Inr (fx @ [SocketOpen],
                 s1\<lparr>socket := Some (so\<lparr>query := token,
                        handshakes := handshakes so @ [\<lparr>phase = AwaitConnect, outcome = Pending\<rparr>]\<rparr>)\<rparr>,
                 Listening (length (handshakes so))))"

text \<open>
  Delivery of one socket event.  The transport library sets \<open>socket.connected\<close> to
  true before it calls the listeners of \<open>connect\<close> and to false before it calls those of
  \<open>disconnect\<close>; the other events leave the flag as it is.  The listeners of
  \<open>initialize\<close> were registered first and run first, then those of the handshakes.
  With no socket object nothing is delivered.
\<close>

definition set_connected :: "bool \<Rightarrow> SocketIO \<Rightarrow> SocketIO" where
  "set_connected b s =
     (case socket s of None \<Rightarrow> s | Some so \<Rightarrow> s\<lparr>socket := Some (so\<lparr>connected := b\<rparr>)\<rparr>)"

definition run_handshakes :: "socket_event \<Rightarrow> SocketIO \<Rightarrow> SocketIO" where
  "run_handshakes ev s =
     (case socket s of
        None \<Rightarrow> s
      | Some so \<Rightarrow> s\<lparr>socket := Some (so\<lparr>handshakes := map (handshake_on ev) (handshakes so)\<rparr>)\<rparr>)"

fun initialize_listener :: "socket_event \<Rightarrow> SocketIO \<Rightarrow> socket_effect list \<times> SocketIO" where
  "initialize_listener Connect s = resetReconnectionAttempts s"
| "initialize_listener (Disconnect reason) s =
     (if reason \<noteq> ''io client disconnect'' \<and> enabled (reconnectionConfig s)
      then attemptReconnection s else ([], s))"
| "initialize_listener (ConnectError m) s =
     (if enabled (reconnectionConfig s) then attemptReconnection s else ([], s))"
| "initialize_listener ConnectionReady s = ([], s)"

definition deliver :: "socket_event \<Rightarrow> SocketIO \<Rightarrow> socket_effect list \<times> SocketIO" where
  "deliver ev s =
     (case socket s of
        None \<Rightarrow> ([], s)
      | Some so \<Rightarrow>
          let s1 = (case ev of Connect \<Rightarrow> set_connected True s
                             | Disconnect r \<Rightarrow> set_connected False s
                             | ConnectError m \<Rightarrow> s
                             | ConnectionReady \<Rightarrow> s);
              (fx, s2) = initialize_listener ev s1
          in (fx, run_handshakes ev s2))"

fun deliver_all :: "socket_event list \<Rightarrow> SocketIO \<Rightarrow> socket_effect list \<times> SocketIO" where
  "deliver_all [] s = ([], s)"
| "deliver_all (ev # evs) s =
     (let (fx, s1) = deliver ev s; (fx', s2) = deliver_all evs s1 in (fx @ fx', s2))"

text \<open>The events on which a listener of \<open>initialize\<close> calls \<open>_attemptReconnection\<close>
  (while reconnection is enabled): a connect error and an involuntary disconnect.\<close>

fun retries :: "socket_event \<Rightarrow> bool" where
  "retries (ConnectError m) = True"
| "retries (Disconnect reason) = (reason \<noteq> ''io client disconnect'')"
| "retries e = False"

fun scheduled :: "socket_effect list \<Rightarrow> rat list" where
  "scheduled [] = []"
| "scheduled (SetTimeout d # fx) = d # scheduled fx"
| "scheduled (e # fx) = scheduled fx"

fun notifications :: "socket_effect list \<Rightarrow> string list" where
  "notifications [] = []"
| "notifications (Notify m # fx) = m # notifications fx"
| "notifications (e # fx) = notifications fx"

text \<open>The promise a reference stands for, in a given state of the channel.\<close>

definition promise_of :: "promise_ref \<Rightarrow> SocketIO \<Rightarrow> promise" where
  "promise_of r s =
     (case r of
        Settled p \<Rightarrow> p
      | Listening i \<Rightarrow>
          (case socket s of
             None \<Rightarrow> Pending
           | Some so \<Rightarrow> if i < length (handshakes so) then outcome (handshakes so ! i) else Pending))"


section \<open>Completion of a call\<close>

text \<open>
  A call either returns a value or throws.  Effects performed and state written before a
  throw stay, so the functions below return the effects, the state and the completion
  side by side.
\<close>

datatype 'a completion = Returns 'a | Throws js_error

fun findIndex :: "('a \<Rightarrow> bool) \<Rightarrow> 'a list \<Rightarrow> nat option" where
  "findIndex P [] = None"
| "findIndex P (x # xs) = (if P x then Some 0 else map_option Suc (findIndex P xs))"

text \<open>\<open>findIndex\<close> gives \<open>None\<close> where JavaScript gives \<open>-1\<close>; \<open>splice1 i\<close> is
  \<open>splice(i, 1)\<close>.\<close>

definition splice1 :: "nat \<Rightarrow> 'a list \<Rightarrow> 'a list" where
  "splice1 i xs = take i xs @ drop (Suc i) xs"

section \<open>Roster: module People\<close>

text \<open>
  A roster entry has the fields of the object literal that \<open>People.add\<close> pushes
  (\<open>id'\<close> and \<open>record'\<close> are \<open>id\<close> and \<open>record\<close>).  The two sub-connections are
  objects of the peer library; the model holds a handle for each.
\<close>

record connection_entry =
  id' :: string
  peerJsId :: string
  mediaConnection :: nat
  dataConnection :: nat
  active :: bool
  camMute :: bool
  micMute :: bool
  share :: bool
  record' :: bool
  name :: string
  isCreator :: bool

datatype waiting_entry = WaitingEntry (waiting_peerJsId: string) (waiting_payload: string)

record People =
  connections :: "connection_entry list"
  waitingList :: "waiting_entry list"

datatype room_user = RoomUser (user_peerJsId: string) (user_name: string) (user_roomCreator: bool)

datatype room_information = RoomInformation (room_id: string) (users: "room_user list")

datatype peer_connection = PeerConnection (peer: string) (handle: nat)

datatype join_data = JoinData (data_name: string) (data_roomCreator: bool)

datatype people_effect =
    CloseConnection nat
  | ListenOpen nat
  | ListenStream nat
  | ScheduleStreamReset nat
  | StopShareScreen

definition People_setup :: "connection_entry list \<Rightarrow> waiting_entry list \<Rightarrow> People" where
  "People_setup conns waiting = \<lparr>connections = conns, waitingList = waiting\<rparr>"

text \<open>
  \<open>People.add\<close>: the first argument is \<open>Room.information\<close> (\<open>None\<close> is \<open>null\<close>, and
  reading \<open>users\<close> of it throws a TypeError, which the catch block throws again);
  \<open>data = false\<close> is \<open>None\<close>.
\<close>

definition People_add ::
  "room_information option \<Rightarrow> peer_connection \<Rightarrow> peer_connection \<Rightarrow> join_data option \<Rightarrow> People
     \<Rightarrow> people_effect list \<times> People \<times> bool completion" where
  "People_add information mediaConn dataConn data p =
     (case find (\<lambda>x. id' x = peer mediaConn) (connections p) of
        Some user \<Rightarrow> ([], p, Returns True)
      | None \<Rightarrow>
          (case information of
             None \<Rightarrow> ([], p, Throws (JsError ''TypeError'' ''Cannot read properties of null''))
           | Some info \<Rightarrow>
               let userItem = find (\<lambda>x. user_peerJsId x = peer mediaConn) (users info);
                   userName = (case userItem of None \<Rightarrow> [] | Some u \<Rightarrow> user_name u);
                   userType = (case userItem of None \<Rightarrow> False | Some u \<Rightarrow> user_roomCreator u);
                   connection =
                     \<lparr>id' = peer mediaConn, peerJsId = peer mediaConn,
                      mediaConnection = handle mediaConn, dataConnection = handle dataConn,
                      active = False, camMute = True, micMute = True, share = False,
                      record' = False, name = userName, isCreator = userType\<rparr>;
                   connection' =
                     (case data of
                        None \<Rightarrow> connection
                      | Some d \<Rightarrow> connection\<lparr>name := data_name d, isCreator := data_roomCreator d\<rparr>)
               in ([ListenOpen (handle dataConn), ListenStream (handle mediaConn)],
                   p\<lparr>connections := connections p @ [connection']\<rparr>,
                   Returns True)))"

text \<open>
  \<open>People.remove\<close>: \<open>closeResult h\<close> is what \<open>close()\<close> of the sub-connection with
  handle \<open>h\<close> does (\<open>None\<close>: it returns; \<open>Some e\<close>: it throws \<open>e\<close>).  A throw leaves
  the try block before \<open>splice\<close>, and the catch block throws the error again.
\<close>

definition People_remove ::
  "(nat \<Rightarrow> js_error option) \<Rightarrow> string \<Rightarrow> People \<Rightarrow> people_effect list \<times> People \<times> unit completion" where
  "People_remove closeResult pid p =
     (case findIndex (\<lambda>x. peerJsId x = pid) (connections p) of
        None \<Rightarrow> ([], p, Returns ())
      | Some index \<Rightarrow>
          let connection = connections p ! index in
          (case closeResult (mediaConnection connection) of
             Some e \<Rightarrow> ([CloseConnection (mediaConnection connection)], p, Throws e)
           | None \<Rightarrow>
               (case closeResult (dataConnection connection) of
                  Some e \<Rightarrow>
                    ([CloseConnection (mediaConnection connection),
                      CloseConnection (dataConnection connection)], p, Throws e)
                | None \<Rightarrow>
                    ([CloseConnection (mediaConnection connection),
                      CloseConnection (dataConnection connection),
                      ScheduleStreamReset 10],
                     p\<lparr>connections := splice1 index (connections p)\<rparr>,
                     Returns ()))))"

text \<open>\<open>People.closeAll\<close> swallows whatever its try block throws, so it always returns;
  the two lists are emptied only when every \<open>close()\<close> returned.\<close>

fun close_each :: "(nat \<Rightarrow> js_error option) \<Rightarrow> connection_entry list \<Rightarrow> people_effect list \<times> js_error option" where
  "close_each closeResult [] = ([], None)"
| "close_each closeResult (c # cs) =
     (case closeResult (mediaConnection c) of
        Some e \<Rightarrow> ([CloseConnection (mediaConnection c)], Some e)
      | None \<Rightarrow>
          (case closeResult (dataConnection c) of
             Some e \<Rightarrow> ([CloseConnection (mediaConnection c), CloseConnection (dataConnection c)], Some e)
           | None \<Rightarrow>
               (let (fx, r) = close_each closeResult cs
                in (CloseConnection (mediaConnection c) # CloseConnection (dataConnection c) # fx, r))))"

definition People_closeAll :: "(nat \<Rightarrow> js_error option) \<Rightarrow> People \<Rightarrow> people_effect list \<times> People" where
  "People_closeAll closeResult p =
     (let (fx, r) = close_each closeResult (connections p)
      in (StopShareScreen # fx,
          (case r of None \<Rightarrow> p\<lparr>connections := [], waitingList := []\<rparr> | Some e \<Rightarrow> p)))"

section \<open>Peer-data subscriptions: module Events\<close>

text \<open>
  \<open>Events.events\<close> is an array of \<open>{type, event, method}\<close>.  The third argument of
  \<open>addEventHandler\<close> is any JavaScript value; only a function is stored.
\<close>

datatype ('d, 'r) event_handler =
  EventHandler (handler_type: string) (handler_event: string) (handler_method: "'d \<Rightarrow> 'r")

datatype ('d, 'r) js_method = Function "'d \<Rightarrow> 'r" | NotFunction

definition Events_setup :: "('d, 'r) event_handler list" where
  "Events_setup = []"

definition Events_addEventHandler ::
  "string \<Rightarrow> string \<Rightarrow> ('d, 'r) js_method \<Rightarrow> ('d, 'r) event_handler list
     \<Rightarrow> js_error + ('d, 'r) event_handler list" where
  "Events_addEventHandler type event method events =
     (case method of
        NotFunction \<Rightarrow> Inl (JsError ''Error'' ''Event handler must be a function'')
      | Function f \<Rightarrow> Inr (events @ [EventHandler type event f]))"

definition Events_executeHandler ::
  "string \<Rightarrow> string \<Rightarrow> 'd \<Rightarrow> ('d, 'r) event_handler list \<Rightarrow> 'r option" where
  "Events_executeHandler type event data events =
     (case find (\<lambda>x. handler_type x = type \<and> handler_event x = event) events of
        Some h \<Rightarrow> Some (handler_method h data)
      | None \<Rightarrow> None)"


section \<open>Room lifecycle and action dispatch: module Room\<close>

text \<open>
  An action envelope.  An action item is what \<open>script()\<close> or the required module
  returns; its \<open>run\<close> performs notifications and then returns or throws.
\<close>

datatype action =
  Action (action_name: string) (action_attributes: string) (action_users: "string list")
    (action_moderator: bool)

datatype room_effect =
    PeopleEffect people_effect
  | MediaRelease
  | PeerDisconnect
  | ShareMediaDestroy
  | SocketEmit string string
  | Emit string string

type_synonym action_item = "action \<Rightarrow> room_effect list \<times> js_error option"

definition isLower :: "char \<Rightarrow> bool" where
  "isLower c = (c \<in> set ''abcdefghijklmnopqrstuvwxyz'')"

definition toUpperCase :: "char \<Rightarrow> char" where
  "toUpperCase c =
     (case map_of (zip ''abcdefghijklmnopqrstuvwxyz'' ''ABCDEFGHIJKLMNOPQRSTUVWXYZ'') c of
        None \<Rightarrow> c
      | Some u \<Rightarrow> u)"

text \<open>\<open>name.replace(/-[a-z]/g, m => m.slice(1).toUpperCase())\<close>, on ASCII names.\<close>

fun kebabToCamel :: "string \<Rightarrow> string" where
  "kebabToCamel (a # b # cs) =
     (if a = CHR ''-'' \<and> isLower b then toUpperCase b # kebabToCamel cs
      else a # kebabToCamel (b # cs))"
| "kebabToCamel cs = cs"

definition capitalize :: "string \<Rightarrow> string" where
  "capitalize s = (case s of [] \<Rightarrow> [] | c # cs \<Rightarrow> toUpperCase c # cs)"

text \<open>
  \<open>Room.runRequestedAction\<close>.  \<open>custom\<close> is \<open>Room.parent.actions\<close> (the item that
  \<open>script()\<close> gives, for the names that have a script), \<open>builtin\<close> is what
  \<open>require('../actions/' + actionName + 'Action')()\<close> gives (\<open>None\<close>: the module does
  not exist and \<open>require\<close> throws).  \<open>resolve_item\<close> is the part of the try
  block that finds the item, in \<open>Room.actions\<close> or by creating and caching it;
  \<open>run_item\<close> is the call of its \<open>run\<close> and the notification after it.  The second
  component of the result is \<open>Room.actions\<close>.  The catch block throws the error
  again.
\<close>

definition run_item ::
  "action_item \<Rightarrow> string \<Rightarrow> action \<Rightarrow> (string \<times> action_item) list
     \<Rightarrow> room_effect list \<times> (string \<times> action_item) list \<times> unit completion" where
  "run_item actionItem actionName act acts =
     (case actionItem act of
        (fx, Some error) \<Rightarrow> (fx, acts, Throws error)
      | (fx, None) \<Rightarrow>
          (fx @ [Emit (''on'' @ capitalize actionName @ ''Action'') (action_attributes act)],
           acts, Returns ()))"

definition resolve_item ::
  "(string \<Rightarrow> action_item option) \<Rightarrow> (string \<Rightarrow> action_item option) \<Rightarrow> string
     \<Rightarrow> (string \<times> action_item) list \<Rightarrow> (action_item \<times> (string \<times> action_item) list) option" where
  "resolve_item custom builtin actionName acts =
     (case findIndex (\<lambda>x. fst x = actionName) acts of
        Some index \<Rightarrow> Some (snd (acts ! index), acts)
      | None \<Rightarrow>
          (case (case custom actionName of Some item \<Rightarrow> Some item | None \<Rightarrow> builtin actionName) of
             None \<Rightarrow> None
           | Some actionItem \<Rightarrow> Some (actionItem, acts @ [(actionName, actionItem)])))"

definition Room_runRequestedAction ::
  "(string \<Rightarrow> action_item option) \<Rightarrow> (string \<Rightarrow> action_item option) \<Rightarrow> action
     \<Rightarrow> (string \<times> action_item) list
     \<Rightarrow> room_effect list \<times> (string \<times> action_item) list \<times> unit completion" where
  "Room_runRequestedAction custom builtin act acts =
     (let actionName = kebabToCamel (action_name act) in
      case resolve_item custom builtin actionName acts of
        None \<Rightarrow>
          ([], acts,
           Throws (JsError ''Error'' (''Cannot find module ../actions/'' @ actionName @ ''Action'')))
      | Some (actionItem, acts') \<Rightarrow> run_item actionItem actionName act acts')"

text \<open>
  \<open>Room.left\<close>.  The environment says what each outside call does (\<open>None\<close>: it
  returns): \<open>close()\<close> of a sub-connection, \<open>Media.release()\<close>,
  \<open>peerJs.disconnect()\<close>, \<open>shareMedia?.destroy()\<close> (\<open>shareMedia = None\<close>: there is no
  share stream and the call is skipped) and \<open>socket.emit\<close>.  The catch block reads
  \<open>parent.configs.debug\<close>, where \<open>parent\<close> is not a name of the module:
  \<open>parentGlobal\<close> says whether the global scope has no such name, has one without
  \<open>configs\<close>, or has one with \<open>configs\<close>.
\<close>

datatype parent_binding = Unbound | NoConfigs | Configs bool

record left_env =
  closeResult :: "nat \<Rightarrow> js_error option"
  releaseResult :: "js_error option"
  peerDisconnectResult :: "js_error option"
  shareMedia :: "js_error option option"
  emitResult :: "js_error option"
  parentGlobal :: parent_binding

definition left_catch :: "left_env \<Rightarrow> js_error \<Rightarrow> bool completion" where
  "left_catch env error =
     (case parentGlobal env of
        Unbound \<Rightarrow> Throws (JsError ''ReferenceError'' ''parent is not defined'')
      | NoConfigs \<Rightarrow> Throws (JsError ''TypeError'' ''Cannot read properties of undefined'')
      | Configs debug \<Rightarrow> Throws error)"

definition Room_left ::
  "left_env \<Rightarrow> SocketIO option \<Rightarrow> room_information option \<Rightarrow> People
     \<Rightarrow> room_effect list \<times> People \<times> bool completion" where
  "Room_left env sock information p =
     (if \<not> (case sock of None \<Rightarrow> False | Some s \<Rightarrow> isConnected s)
         \<or> (case information of None \<Rightarrow> True | Some info \<Rightarrow> room_id info = [])
      then ([], p, Returns False)
      else
        let roomId = (case information of None \<Rightarrow> [] | Some info \<Rightarrow> room_id info);
            (fxp, p1) = People_closeAll (closeResult env) p;
            fx1 = map PeopleEffect fxp @ [MediaRelease]
        in
        case releaseResult env of
          Some e \<Rightarrow> (fx1, p1, left_catch env e)
        | None \<Rightarrow>
            (case peerDisconnectResult env of
               Some e \<Rightarrow> (fx1 @ [PeerDisconnect], p1, left_catch env e)
             | None \<Rightarrow>
                 let fx2 = fx1 @ [PeerDisconnect] @
                             (case shareMedia env of None \<Rightarrow> [] | Some r \<Rightarrow> [ShareMediaDestroy])
                 in
                 (case shareMedia env of
                    Some (Some e) \<Rightarrow> (fx2, p1, left_catch env e)
                  | _ \<Rightarrow>
                      (case emitResult env of
                         Some e \<Rightarrow> (fx2 @ [SocketEmit ''left-room'' roomId], p1, left_catch env e)
                       | None \<Rightarrow> (fx2 @ [SocketEmit ''left-room'' roomId], p1, Returns True)))))"

text \<open>The acknowledgement callback of \<open>left-room\<close>: \<open>closeConnection()\<close>, that is
  \<open>setConnection(false)\<close>, and then \<open>Room.parent.socket = null\<close>.\<close>

definition Room_left_ack :: "SocketIO \<Rightarrow> socket_effect list \<times> SocketIO option \<times> unit completion" where
  "Room_left_ack s =
     (case setConnection False None s of
        Inl e \<Rightarrow> ([], Some s, Throws e)
      | Inr (fx, s', r) \<Rightarrow> (fx, None, Returns ()))"


section \<open>Local media: module Media\<close>

text \<open>
  \<open>camDisable\<close> and \<open>micDisable\<close> are the fields of \<open>parent.userSettings\<close>;
  \<open>srcObject\<close> is \<open>Media.video.srcObject\<close>, the raw stream of the last successful
  \<open>getUserMedia\<close>; \<open>userMedia\<close> is the stream captured from the canvas, carrying the
  audio track of that raw stream.  The environment gives the outcome of
  \<open>getUserMedia\<close>, the senders of each peer connection (the kind of each sender's
  track, \<open>None\<close> for a sender without a track) and whether the local video element is
  in the document.
\<close>

datatype track_kind = Video | Audio

datatype devices = Devices (camera: string) (microphone: string)

datatype media_stream = CanvasStream nat

datatype grab_result = Stream media_stream | Message string

datatype media_effect =
    Release
  | GetUserMedia bool
  | ClearInterval
  | AddEmptyVideoTrack
  | Play nat
  | NotifyMediaStreamReady
  | StreamVideo media_stream
  | ReplaceTrack nat nat track_kind
  | AddTrack nat track_kind
  | Send nat bool bool
  | StopVideoTracks nat
  | SetAudioEnabled nat bool
  | UnhandledRejection js_error

record Media =
  devices :: "devices option"
  userMedia :: "media_stream option"
  srcObject :: "nat option"
  camDisable :: bool
  micDisable :: bool

record media_env =
  getUserMedia :: "js_error + nat"
  senders :: "nat \<Rightarrow> track_kind option list"
  localVideo :: bool

definition mediaGrabErrors :: "(string list \<times> string) list" where
  "mediaGrabErrors =
     [([''NotFoundError'', ''DevicesNotFoundError''], ''required track is missing''),
      ([''NotReadableError'', ''TrackStartError''], ''webcam or mic are already in use ''),
      ([''OverconstrainedError'', ''ConstraintNotSatisfiedError''],
         ''constraints can not be satisfied by avb. devices''),
      ([''NotAllowedError'', ''PermissionDeniedError''], ''permission denied in browser''),
      ([''TypeError''], ''empty constraints object'')]"

text \<open>\<open>a || b\<close> on strings: the empty string is falsy.\<close>

definition js_or :: "string \<Rightarrow> string \<Rightarrow> string" where
  "js_or a b = (if a = [] then b else a)"

text \<open>The catch block of \<open>Media.grab\<close>.\<close>

definition grab_catch :: "js_error \<Rightarrow> string" where
  "grab_catch error =
     (let errorMessage = find (\<lambda>e. err_name error \<in> set (fst e)) mediaGrabErrors;
          message = (case errorMessage of
                       None \<Rightarrow> err_name error
                     | Some e \<Rightarrow> js_or (snd e) (err_name error))
      in js_or message (err_name error))"


definition Media_sendUserMediaMuteStatusByDataConnection ::
  "bool \<Rightarrow> bool \<Rightarrow> connection_entry list \<Rightarrow> media_effect list" where
  "Media_sendUserMediaMuteStatusByDataConnection videoStatus audioStatus conns =
     map (\<lambda>connection. Send (dataConnection connection) videoStatus audioStatus) conns"

text \<open>
  The last branch of \<open>Media.terminateConnectionsVideoAudioMedia\<close> with the broadcast
  that follows it.  \<open>Media.grab\<close> reaches it through \<open>Media.muteMicrophone\<close>, so it is
  defined first; \<open>conns\<close> is the roster at the time of the call.
\<close>

definition terminate_audio_branch ::
  "connection_entry list \<Rightarrow> Media \<Rightarrow> media_effect list \<times> Media \<times> unit completion" where
  "terminate_audio_branch conns st =
     (case srcObject st of
        None \<Rightarrow> ([], st, Throws (JsError ''TypeError'' ''Cannot read properties of null''))
      | Some h \<Rightarrow>
          (SetAudioEnabled h (\<not> micDisable st)
             # Media_sendUserMediaMuteStatusByDataConnection (camDisable st) (micDisable st) conns,
           st, Returns ()))"

text \<open>\<open>status = None\<close> is the default argument, the negation of the current flag.\<close>

definition Media_muteMicrophone ::
  "bool option \<Rightarrow> connection_entry list \<Rightarrow> Media \<Rightarrow> media_effect list \<times> Media \<times> unit completion" where
  "Media_muteMicrophone status conns st =
     terminate_audio_branch conns
       (st\<lparr>micDisable := (case status of None \<Rightarrow> \<not> micDisable st | Some b \<Rightarrow> b)\<rparr>)"

text \<open>
  \<open>Media.grab\<close> in two parts: up to the call of \<open>getUserMedia\<close> (a throw there is
  already caught and gives the message), and from its outcome on.
\<close>

definition grab_begin :: "devices option \<Rightarrow> bool \<Rightarrow> Media \<Rightarrow> media_effect list \<times> Media \<times> string option" where
  "grab_begin devs muteVideo st =
     (let st1 = st\<lparr>devices := devs\<rparr> in
      case devs of
        None \<Rightarrow> ([], st1, Some (grab_catch (JsError ''TypeError'' ''Cannot read properties of null'')))
      | Some d \<Rightarrow> ([GetUserMedia (\<not> muteVideo)], st1, None))"

definition grab_resume ::
  "js_error + nat \<Rightarrow> bool \<Rightarrow> connection_entry list \<Rightarrow> Media \<Rightarrow> media_effect list \<times> Media \<times> grab_result" where
  "grab_resume gum muteAudio conns st =
     (case gum of
        Inl error \<Rightarrow> ([], st, Message (grab_catch error))
      | Inr media \<Rightarrow>
          let fx1 = ClearInterval # (if camDisable st then [AddEmptyVideoTrack] else [])
                      @ [Play media, NotifyMediaStreamReady];
              st1 = st\<lparr>srcObject := Some media, userMedia := Some (CanvasStream media)\<rparr>
          in if muteAudio
             then (case Media_muteMicrophone (Some True) conns st1 of
                     (fx, st2, Throws e) \<Rightarrow> (fx1 @ fx, st2, Message (grab_catch e))
                   | (fx, st2, Returns u) \<Rightarrow> (fx1 @ fx, st2, Stream (CanvasStream media)))
             else (fx1, st1, Stream (CanvasStream media)))"

definition Media_grab ::
  "media_env \<Rightarrow> connection_entry list \<Rightarrow> devices option \<Rightarrow> bool \<Rightarrow> bool \<Rightarrow> Media
     \<Rightarrow> media_effect list \<times> Media \<times> grab_result" where
  "Media_grab env conns devs muteVideo muteAudio st =
     (case grab_begin devs muteVideo st of
        (fx, st1, Some msg) \<Rightarrow> (fx, st1, Message msg)
      | (fx, st1, None) \<Rightarrow>
          (let (fx', st2, r) = grab_resume (getUserMedia env) muteAudio conns st1
           in (fx @ fx', st2, r)))"






text \<open>The calls \<open>replaceTrack\<close> and \<open>addTrack\<close> among the effects.\<close>

fun is_track_call :: "media_effect \<Rightarrow> bool" where
  "is_track_call (ReplaceTrack h i k) = True"
| "is_track_call (AddTrack h k) = True"
| "is_track_call e = False"

definition track_calls :: "media_effect list \<Rightarrow> media_effect list" where
  "track_calls fx = filter is_track_call fx"

section \<open>Concrete inputs\<close>

text \<open>The channel of the constructor after \<open>initialize\<close> and five connect errors in a
  row.\<close>

definition after_five_errors :: SocketIO where
  "after_five_errors =
     snd (deliver_all (replicate 5 (ConnectError ''timeout'')) (initialize SocketIO_constructor))"

text \<open>The channel of the constructor after \<open>initialize\<close> and six connect errors in a
  row, and the same channel after the application has called \<open>setConnection(true, token)\<close>
  again.\<close>

definition exhausted_channel :: SocketIO where
  "exhausted_channel =
     snd (deliver_all (replicate 6 (ConnectError ''timeout'')) (initialize SocketIO_constructor))"

definition reopened_channel :: SocketIO where
  "reopened_channel =
     (case setConnection True (Some ''token'') exhausted_channel of
        Inl e \<Rightarrow> exhausted_channel
      | Inr (fx, s, r) \<Rightarrow> s)"

text \<open>The channel of the constructor after \<open>initialize\<close> and one call
  \<open>setConnection(true, token)\<close>; the promise of that call is \<open>Listening 0\<close>.\<close>

definition connecting :: SocketIO where
  "connecting =
     (case setConnection True (Some ''token'') (initialize SocketIO_constructor) of
        Inl e \<Rightarrow> SocketIO_constructor
      | Inr (fx, s, r) \<Rightarrow> s)"

text \<open>An event settles the first phase of a handshake when it is the connect event or a
  connect error.\<close>

fun settles :: "socket_event \<Rightarrow> bool" where
  "settles Connect = True"
| "settles (ConnectError m) = True"
| "settles e = False"

text \<open>A roster of two peers, the room they are in, and sub-connections whose
  \<open>close()\<close> returns.\<close>

definition entry_p1 :: connection_entry where
  "entry_p1 =
     \<lparr>id' = ''p1'', peerJsId = ''p1'', mediaConnection = 1, dataConnection = 2,
      active = True, camMute = False, micMute = False, share = False, record' = False,
      name = ''Ann'', isCreator = True\<rparr>"

definition entry_p2 :: connection_entry where
  "entry_p2 =
     \<lparr>id' = ''p2'', peerJsId = ''p2'', mediaConnection = 3, dataConnection = 4,
      active = True, camMute = True, micMute = False, share = False, record' = False,
      name = ''Bob'', isCreator = False\<rparr>"

definition people_two :: People where
  "people_two = People_setup [entry_p1, entry_p2] []"

definition room_two :: room_information where
  "room_two =
     RoomInformation ''room-1''
       [RoomUser ''p1'' ''Ann'' True, RoomUser ''p2'' ''Bob'' False, RoomUser ''p3'' ''Cy'' False]"

definition closes_normally :: "nat \<Rightarrow> js_error option" where
  "closes_normally h = None"

text \<open>Sub-connections of which the one with handle 2, the data sub-connection of the
  first peer, throws on \<open>close()\<close>.\<close>

definition data_close_throws :: "nat \<Rightarrow> js_error option" where
  "data_close_throws h = (if h = 2 then Some (JsError ''Error'' ''close failed'') else None)"

text \<open>Two handlers for the same channel tag and event name.\<close>

definition first_handler :: "nat \<Rightarrow> nat" where
  "first_handler d = d + 1"

definition second_handler :: "nat \<Rightarrow> nat" where
  "second_handler d = d + 2"

definition registered_twice :: "(nat, nat) event_handler list" where
  "registered_twice =
     [EventHandler ''peerJsData'' ''chat'' first_handler,
      EventHandler ''peerJsData'' ''chat'' second_handler]"

text \<open>
  Action items: the built-in \<open>faceApi\<close> action, whose \<open>run\<close> emits one notification,
  and a custom action whose \<open>run\<close> throws.
\<close>

definition faceApi_item :: action_item where
  "faceApi_item act = ([Emit ''onFaceDetectDraw'' (action_attributes act)], None)"

definition failing_item :: action_item where
  "failing_item act = ([], Some (JsError ''Error'' ''boom''))"

definition custom_actions :: "string \<Rightarrow> action_item option" where
  "custom_actions actionName = (if actionName = ''failing'' then Some failing_item else None)"

definition builtin_actions :: "string \<Rightarrow> action_item option" where
  "builtin_actions actionName = (if actionName = ''faceApi'' then Some faceApi_item else None)"

definition no_actions :: "string \<Rightarrow> action_item option" where
  "no_actions actionName = None"

text \<open>
  The channel after the transport-level connect, and environments of \<open>Room.left\<close>:
  one where every outside call returns, one where \<open>Media.release()\<close> throws.
\<close>

definition connected_channel :: SocketIO where
  "connected_channel = snd (deliver Connect connecting)"

definition env_ok :: left_env where
  "env_ok =
     \<lparr>closeResult = closes_normally, releaseResult = None, peerDisconnectResult = None,
      shareMedia = None, emitResult = None, parentGlobal = Configs False\<rparr>"

definition env_release_throws :: left_env where
  "env_release_throws =
     env_ok\<lparr>releaseResult := Some (JsError ''InvalidStateError'' ''release failed'')\<rparr>"

text \<open>
  Media: peer connections that each have a video and an audio sender, an environment
  where \<open>getUserMedia\<close> gives a stream, one where it fails with an error outside the
  table of \<open>Media.grab\<close>, and a local session whose camera is muted.
\<close>

definition video_audio_senders :: "nat \<Rightarrow> track_kind option list" where
  "video_audio_senders h = [Some Video, Some Audio]"

definition env_stream :: media_env where
  "env_stream = \<lparr>getUserMedia = Inr 7, senders = video_audio_senders, localVideo = True\<rparr>"

definition env_abort :: media_env where
  "env_abort =
     env_stream\<lparr>getUserMedia := Inl (JsError ''AbortError'' ''Starting videoinput failed'')\<rparr>"

definition camera_off :: Media where
  "camera_off =
     \<lparr>devices = Some (Devices ''cam-1'' ''mic-1''), userMedia = Some (CanvasStream 3),
      srcObject = Some 3, camDisable = True, micDisable = False\<rparr>"

definition env_denied :: media_env where
  "env_denied =
     env_stream\<lparr>getUserMedia := Inl (JsError ''NotAllowedError'' ''Permission denied'')\<rparr>"

section \<open>Signaling channel: retry schedule\<close>

lemma clearPending_fields [simp]:
  "enabled (snd (clearPending rc)) = enabled rc"
  "attempts (snd (clearPending rc)) = attempts rc"
  "delay (snd (clearPending rc)) = delay rc"
  "maxDelay (snd (clearPending rc)) = maxDelay rc"
  "backoffFactor (snd (clearPending rc)) = backoffFactor rc"
  "currentAttempt (snd (clearPending rc)) = currentAttempt rc"
  "timeout (snd (clearPending rc)) = None"
  by (simp_all add: clearPending_def split: option.splits)

lemma scheduled_clearPending [simp]: "scheduled (fst (clearPending rc)) = []"
  by (simp add: clearPending_def split: option.splits)

lemma notifications_clearPending [simp]: "notifications (fst (clearPending rc)) = []"
  by (simp add: clearPending_def split: option.splits)

lemma scheduled_append [simp]: "scheduled (xs @ ys) = scheduled xs @ scheduled ys"
  by (induction xs rule: scheduled.induct) simp_all

lemma notifications_append [simp]: "notifications (xs @ ys) = notifications xs @ notifications ys"
  by (induction xs rule: notifications.induct) simp_all

lemma attemptReconnection_step:
  assumes "\<not> isConnected s" "enabled (reconnectionConfig s)"
  shows "scheduled (fst (attemptReconnection s)) =
           (if currentAttempt (reconnectionConfig s) < attempts (reconnectionConfig s)
            then [retryDelay (reconnectionConfig s)] else [])"
    and "reconnectionConfig (snd (attemptReconnection s)) =
           (if currentAttempt (reconnectionConfig s) < attempts (reconnectionConfig s)
            then (reconnectionConfig s)\<lparr>currentAttempt := currentAttempt (reconnectionConfig s) + 1,
                   timeout := Some (retryDelay (reconnectionConfig s))\<rparr>
            else (reconnectionConfig s)\<lparr>timeout := None\<rparr>)"
    and "socket (snd (attemptReconnection s)) = socket s"
    and "isConnected (snd (attemptReconnection s)) = isConnected s"
  using assms
  by (auto simp: attemptReconnection_def Let_def split_beta retryDelay_def clearPending_def
           isConnected_def split: option.splits)

lemma isConnected_set_connected_False [simp]: "\<not> isConnected (set_connected False s)"
  by (simp add: isConnected_def set_connected_def split: option.splits)

lemma set_connected_fields [simp]:
  "reconnectionConfig (set_connected b s) = reconnectionConfig s"
  "initialized (set_connected b s) = initialized s"
  "(socket (set_connected b s) = None) = (socket s = None)"
  by (simp_all add: set_connected_def split: option.splits)

lemma run_handshakes_fields [simp]:
  "reconnectionConfig (run_handshakes ev s) = reconnectionConfig s"
  "initialized (run_handshakes ev s) = initialized s"
  "(socket (run_handshakes ev s) = None) = (socket s = None)"
  "isConnected (run_handshakes ev s) = isConnected s"
  by (simp_all add: run_handshakes_def isConnected_def split: option.splits)

text \<open>One retry event, on a channel that is not connected or that the event itself
  disconnects.\<close>

lemma deliver_retry:
  assumes "socket s \<noteq> None" "enabled (reconnectionConfig s)" "retries ev"
    and "\<not> isConnected s \<or> (\<exists>reason. ev = Disconnect reason)"
  shows "scheduled (fst (deliver ev s)) =
           (if currentAttempt (reconnectionConfig s) < attempts (reconnectionConfig s)
            then [retryDelay (reconnectionConfig s)] else [])"
    and "reconnectionConfig (snd (deliver ev s)) =
           (if currentAttempt (reconnectionConfig s) < attempts (reconnectionConfig s)
            then (reconnectionConfig s)\<lparr>currentAttempt := currentAttempt (reconnectionConfig s) + 1,
                   timeout := Some (retryDelay (reconnectionConfig s))\<rparr>
            else (reconnectionConfig s)\<lparr>timeout := None\<rparr>)"
    and "socket (snd (deliver ev s)) \<noteq> None"
    and "\<not> isConnected (snd (deliver ev s))"
proof -
  define s1 where "s1 = (case ev of Connect \<Rightarrow> set_connected True s
                             | Disconnect r \<Rightarrow> set_connected False s
                             | ConnectError m \<Rightarrow> s
                             | ConnectionReady \<Rightarrow> s)"
  have a: "\<not> isConnected s1" "enabled (reconnectionConfig s1)"
    and c: "reconnectionConfig s1 = reconnectionConfig s" "socket s1 \<noteq> None"
    using assms by (cases ev; auto simp: s1_def)+
  obtain so where so: "socket s = Some so" using assms(1) by auto
  have l: "initialize_listener ev s1 = attemptReconnection s1"
    using assms(3) a(2) by (cases ev) simp_all
  have d: "deliver ev s =
             (fst (attemptReconnection s1), run_handshakes ev (snd (attemptReconnection s1)))"
    unfolding s1_def[symmetric] deliver_def
    by (simp add: so split_beta Let_def l s1_def[symmetric])
  show "scheduled (fst (deliver ev s)) =
           (if currentAttempt (reconnectionConfig s) < attempts (reconnectionConfig s)
            then [retryDelay (reconnectionConfig s)] else [])"
    using attemptReconnection_step(1)[OF a] by (simp add: d c)
  show "reconnectionConfig (snd (deliver ev s)) =
           (if currentAttempt (reconnectionConfig s) < attempts (reconnectionConfig s)
            then (reconnectionConfig s)\<lparr>currentAttempt := currentAttempt (reconnectionConfig s) + 1,
                   timeout := Some (retryDelay (reconnectionConfig s))\<rparr>
            else (reconnectionConfig s)\<lparr>timeout := None\<rparr>)"
    using attemptReconnection_step(2)[OF a] by (simp add: d c)
  show "socket (snd (deliver ev s)) \<noteq> None"
    using attemptReconnection_step(3)[OF a] c(2) by (simp add: d)
  show "\<not> isConnected (snd (deliver ev s))"
    using attemptReconnection_step(4)[OF a] a(1) by (simp add: d)
qed

text \<open>The delays that a run of retry events schedules, from any attempt count.\<close>

lemma retry_events_scheduled:
  "socket s \<noteq> None \<Longrightarrow> enabled (reconnectionConfig s) \<Longrightarrow> list_all retries evs \<Longrightarrow>
   \<not> isConnected s \<or> (\<exists>reason rest. evs = Disconnect reason # rest) \<Longrightarrow>
   scheduled (fst (deliver_all evs s)) =
     map (\<lambda>k. min (delay (reconnectionConfig s) * backoffFactor (reconnectionConfig s) ^ k)
                    (maxDelay (reconnectionConfig s)))
         [currentAttempt (reconnectionConfig s) ..<
            min (currentAttempt (reconnectionConfig s) + length evs) (attempts (reconnectionConfig s))]"
proof (induction evs arbitrary: s)
  case Nil
  then show ?case by simp
next
  case (Cons ev evs)
  let ?rc = "reconnectionConfig s"
  let ?s' = "snd (deliver ev s)"
  have r: "retries ev" and rs: "list_all retries evs" using Cons.prems(3) by simp_all
  have u: "\<not> isConnected s \<or> (\<exists>reason. ev = Disconnect reason)" using Cons.prems(4) by auto
  note st = deliver_retry[OF Cons.prems(1,2) r u]
  have en: "enabled (reconnectionConfig ?s')" using Cons.prems(2) by (simp add: st(2))
  have nc: "\<not> isConnected ?s' \<or> (\<exists>reason rest. evs = Disconnect reason # rest)"
    using st(4) by simp
  note ih = Cons.IH[OF st(3) en rs nc]
  have unf: "scheduled (fst (deliver_all (ev # evs) s)) =
        scheduled (fst (deliver ev s)) @ scheduled (fst (deliver_all evs ?s'))"
    by (simp add: split_beta)
  show ?case
  proof (cases "currentAttempt ?rc < attempts ?rc")
    case True
    then show ?thesis
      unfolding unf ih by (simp add: st retryDelay_def upt_conv_Cons)
  next
    case False
    then show ?thesis
      unfolding unf ih by (simp add: st)
  qed
qed

lemma capped_power_mono:
  fixes b f c :: rat
  assumes "0 \<le> b" "1 \<le> f" "j \<le> k"
  shows "min (b * f ^ j) c \<le> min (b * f ^ k) c"
proof -
  have "f ^ j \<le> f ^ k" using assms by (simp add: power_increasing)
  then have "b * f ^ j \<le> b * f ^ k" using assms(1) by (simp add: mult_left_mono)
  then show ?thesis by (simp add: min_le_iff_disj)
qed

lemma sorted_capped_powers:
  fixes b f c :: rat
  assumes "0 \<le> b" "1 \<le> f"
  shows "sorted (map (\<lambda>k. min (b * f ^ k) c) [a..<N])"
proof (unfold sorted_iff_nth_mono, intro allI impI)
  fix i j
  assume ij: "i \<le> j" and "j < length (map (\<lambda>k. min (b * f ^ k) c) [a..<N])"
  then have "j < N - a" "i < N - a" by simp_all
  moreover have "a + i \<le> a + j" using ij by simp
  ultimately show "map (\<lambda>k. min (b * f ^ k) c) [a..<N] ! i \<le> map (\<lambda>k. min (b * f ^ k) c) [a..<N] ! j"
    using capped_power_mono[OF assms, of "a + i" "a + j" c] by simp
qed

lemma constructor_delay:
  "min (1000 * (3 / 2) ^ k) (5000 :: rat) =
     (if k < 4 then [1000, 1500, 2250, 3375] ! k else 5000)"
proof (cases "k < 4")
  case True
  then have "k = 0 \<or> k = 1 \<or> k = 2 \<or> k = 3" by arith
  then show ?thesis by (auto simp: power2_eq_square power3_eq_cube)
next
  case False
  then have "(3 / 2 :: rat) ^ 4 \<le> (3 / 2) ^ k" by (intro power_increasing) simp_all
  then have "(5000 :: rat) \<le> 1000 * (3 / 2) ^ k" by (simp add: power4_eq_xxxx)
  with False show ?thesis by simp
qed

lemma constructor_delays:
  "map (\<lambda>k. min (1000 * (3 / 2) ^ k) (5000 :: rat)) [0..<N] =
     take N ([1000, 1500, 2250, 3375] @ replicate (N - 4) 5000)"
proof (rule nth_equalityI)
  show "length (map (\<lambda>k. min (1000 * (3 / 2) ^ k) (5000 :: rat)) [0..<N]) =
        length (take N ([1000, 1500, 2250, 3375] @ replicate (N - 4) 5000))"
    by simp
next
  fix i assume "i < length (map (\<lambda>k. min (1000 * (3 / 2) ^ k) (5000 :: rat)) [0..<N])"
  then have i: "i < N" by simp
  define xs :: "rat list" where "xs = [1000, 1500, 2250, 3375]"
  have len: "length xs = 4" by (simp add: xs_def)
  have "take N (xs @ replicate (N - 4) 5000) ! i = (xs @ replicate (N - 4) 5000) ! i"
    using i by (simp only: nth_take)
  also have "\<dots> = (if i < 4 then xs ! i else replicate (N - 4) 5000 ! (i - 4))"
    by (simp only: nth_append len)
  also have "\<dots> = (if i < 4 then xs ! i else 5000)"
    using i by simp
  finally have r: "take N (xs @ replicate (N - 4) 5000) ! i = (if i < 4 then xs ! i else 5000)" .
  have "map (\<lambda>k. min (1000 * (3 / 2) ^ k) (5000 :: rat)) [0..<N] ! i =
          (if i < 4 then xs ! i else 5000)"
    using i by (simp only: nth_map_upt[of i N 0] add_0 minus_nat.diff_0 constructor_delay xs_def)
  with r show "map (\<lambda>k. min (1000 * (3 / 2) ^ k) (5000 :: rat)) [0..<N] ! i =
             take N ([1000, 1500, 2250, 3375] @ replicate (N - 4) 5000) ! i"
    by (simp only: xs_def)
qed

text \<open>
  Claim C1, as amended.  Take a channel with a socket object, reconnection enabled and
  the delay, factor and cap of the constructor (1000, 1.5 and 5000), and a run of connect
  errors and involuntary disconnects that reaches it while it is not connected (or that
  starts with the disconnect).  Each event whose attempt count \<open>k\<close> is below the
  configured maximum \<open>attempts\<close> schedules one retry, with delay
  \<open>min (delay \<times> backoffFactor ^ k) maxDelay\<close>, and raises the count by one; an event
  that finds the count at the maximum schedules none.  The scheduled delays are
  non-decreasing.  From the count zero they are 1000, 1500, 2250, 3375 and then 5000 for
  every later attempt.
\<close>

theorem C1_retry_delays:
  assumes "socket s \<noteq> None"
    and "enabled (reconnectionConfig s)"
    and "delay (reconnectionConfig s) = 1000"
    and "backoffFactor (reconnectionConfig s) = 3 / 2"
    and "maxDelay (reconnectionConfig s) = 5000"
    and "list_all retries evs"
    and "\<not> isConnected s \<or> (\<exists>reason rest. evs = Disconnect reason # rest)"
  shows "scheduled (fst (deliver_all evs s)) =
           map (\<lambda>k. min (delay (reconnectionConfig s) * backoffFactor (reconnectionConfig s) ^ k)
                          (maxDelay (reconnectionConfig s)))
               [currentAttempt (reconnectionConfig s) ..<
                  min (currentAttempt (reconnectionConfig s) + length evs)
                      (attempts (reconnectionConfig s))]
         \<and> sorted (scheduled (fst (deliver_all evs s)))
         \<and> (currentAttempt (reconnectionConfig s) = 0 \<longrightarrow>
              scheduled (fst (deliver_all evs s)) =
                take (min (length evs) (attempts (reconnectionConfig s)))
                  ([1000, 1500, 2250, 3375]
                     @ replicate (min (length evs) (attempts (reconnectionConfig s)) - 4) 5000))"
proof -
  have eq: "scheduled (fst (deliver_all evs s)) =
           map (\<lambda>k. min (delay (reconnectionConfig s) * backoffFactor (reconnectionConfig s) ^ k)
                          (maxDelay (reconnectionConfig s)))
               [currentAttempt (reconnectionConfig s) ..<
                  min (currentAttempt (reconnectionConfig s) + length evs)
                      (attempts (reconnectionConfig s))]"
    by (rule retry_events_scheduled[OF assms(1,2,6,7)])
  show ?thesis
  proof (intro conjI impI)
    show "scheduled (fst (deliver_all evs s)) =
           map (\<lambda>k. min (delay (reconnectionConfig s) * backoffFactor (reconnectionConfig s) ^ k)
                          (maxDelay (reconnectionConfig s)))
               [currentAttempt (reconnectionConfig s) ..<
                  min (currentAttempt (reconnectionConfig s) + length evs)
                      (attempts (reconnectionConfig s))]"
      by (rule eq)
  next
    show "sorted (scheduled (fst (deliver_all evs s)))"
      unfolding eq assms(3,4,5) by (intro sorted_capped_powers) simp_all
  next
    assume z: "currentAttempt (reconnectionConfig s) = 0"
    show "scheduled (fst (deliver_all evs s)) =
            take (min (length evs) (attempts (reconnectionConfig s)))
              ([1000, 1500, 2250, 3375]
                 @ replicate (min (length evs) (attempts (reconnectionConfig s)) - 4) 5000)"
      unfolding eq assms(3,4,5) z add_0 by (rule constructor_delays)
  qed
qed

theorem C1_retry_delays_witness:
  "socket connected_channel \<noteq> None
   \<and> isConnected connected_channel
   \<and> enabled (reconnectionConfig connected_channel)
   \<and> delay (reconnectionConfig connected_channel) = 1000
   \<and> backoffFactor (reconnectionConfig connected_channel) = 3 / 2
   \<and> maxDelay (reconnectionConfig connected_channel) = 5000
   \<and> currentAttempt (reconnectionConfig connected_channel) = 0
   \<and> list_all retries
        [Disconnect ''transport close'', ConnectError ''timeout'', ConnectError ''timeout'',
         ConnectError ''timeout'', ConnectError ''timeout'', ConnectError ''timeout'',
         ConnectError ''timeout'']
   \<and> scheduled (fst (deliver_all
        [Disconnect ''transport close'', ConnectError ''timeout'', ConnectError ''timeout'',
         ConnectError ''timeout'', ConnectError ''timeout'', ConnectError ''timeout'',
         ConnectError ''timeout''] connected_channel)) =
       [1000, 1500, 2250, 3375, 5000]
   \<and> sorted (scheduled (fst (deliver_all
        [Disconnect ''transport close'', ConnectError ''timeout'', ConnectError ''timeout'',
         ConnectError ''timeout'', ConnectError ''timeout'', ConnectError ''timeout'',
         ConnectError ''timeout''] connected_channel)))"
proof -
  let ?evs = "[Disconnect ''transport close'', ConnectError ''timeout'', ConnectError ''timeout'',
         ConnectError ''timeout'', ConnectError ''timeout'', ConnectError ''timeout'',
         ConnectError ''timeout'']"
  have h: "socket connected_channel \<noteq> None"
    "enabled (reconnectionConfig connected_channel)"
    "delay (reconnectionConfig connected_channel) = 1000"
    "backoffFactor (reconnectionConfig connected_channel) = 3 / 2"
    "maxDelay (reconnectionConfig connected_channel) = 5000"
    by code_simp+
  have c: "isConnected connected_channel"
    "currentAttempt (reconnectionConfig connected_channel) = 0"
    "attempts (reconnectionConfig connected_channel) = 5"
    by code_simp+
  have r: "list_all retries ?evs" by simp
  have u: "\<not> isConnected connected_channel \<or> (\<exists>reason rest. ?evs = Disconnect reason # rest)"
    by simp
  have t: "take (min (length ?evs) 5) ([1000, 1500, 2250, 3375] @ replicate (min (length ?evs) 5 - 4) (5000 :: rat)) =
             [1000, 1500, 2250, 3375, 5000]"
    by code_simp
  note T = C1_retry_delays[OF h r u]
  have d: "scheduled (fst (deliver_all ?evs connected_channel)) = [1000, 1500, 2250, 3375, 5000]"
    using T[THEN conjunct2, THEN conjunct2, rule_format, OF c(2)] unfolding c(3) t .
  have "sorted (scheduled (fst (deliver_all ?evs connected_channel)))"
    using T[THEN conjunct2, THEN conjunct1] .
  with h c r d show ?thesis by blast
qed

text \<open>
  Claim C1 as stated fails.  After five connect errors the attempt count is the
  configured maximum, five, and the channel schedules no retry for it; and the fourth
  scheduled delay is 3375, below the cap, not 5000.
\<close>

theorem C1_counterexample:
  "currentAttempt (reconnectionConfig after_five_errors) = 5
   \<and> attempts (reconnectionConfig after_five_errors) = 5
   \<and> enabled (reconnectionConfig after_five_errors)
   \<and> \<not> isConnected after_five_errors
   \<and> scheduled (fst (attemptReconnection after_five_errors)) = []
   \<and> scheduled (fst (deliver (ConnectError ''timeout'') after_five_errors)) = []
   \<and> scheduled (fst (deliver_all (replicate 4 (ConnectError ''timeout''))
                       (initialize SocketIO_constructor))) = [1000, 1500, 2250, 3375]
   \<and> scheduled (fst (deliver_all (replicate 4 (ConnectError ''timeout''))
                       (initialize SocketIO_constructor))) \<noteq> [1000, 1500, 2250, 5000]"
  by code_simp

section \<open>Signaling channel: exhausted retries\<close>

lemma notifications_attemptReconnection [simp]:
  "notifications (fst (attemptReconnection s)) = []"
  by (simp add: attemptReconnection_def Let_def split_beta)

lemma notifications_resetReconnectionAttempts [simp]:
  "notifications (fst (resetReconnectionAttempts s)) = []"
  by (simp add: resetReconnectionAttempts_def Let_def split_beta)

lemma notifications_deliver [simp]: "notifications (fst (deliver ev s)) = []"
  by (cases ev) (simp_all add: deliver_def Let_def split_beta split: option.splits)

lemma notifications_deliver_all: "notifications (fst (deliver_all evs s)) = []"
  by (induction evs arbitrary: s) (simp_all add: split_beta)

lemma attemptReconnection_exhausted:
  assumes "attempts (reconnectionConfig s) \<le> currentAttempt (reconnectionConfig s)"
  shows "scheduled (fst (attemptReconnection s)) = []"
    and "attempts (reconnectionConfig (snd (attemptReconnection s))) = attempts (reconnectionConfig s)"
    and "currentAttempt (reconnectionConfig (snd (attemptReconnection s))) =
           currentAttempt (reconnectionConfig s)"
  using assms by (simp_all add: attemptReconnection_def Let_def split_beta)

lemma deliver_exhausted:
  assumes "attempts (reconnectionConfig s) \<le> currentAttempt (reconnectionConfig s)"
    and "ev \<noteq> Connect"
  shows "scheduled (fst (deliver ev s)) = []"
    and "attempts (reconnectionConfig (snd (deliver ev s)))
           \<le> currentAttempt (reconnectionConfig (snd (deliver ev s)))"
  using assms
  by (cases ev; simp add: deliver_def Let_def split_beta attemptReconnection_exhausted
        split: option.splits)+

lemma deliver_all_exhausted:
  "attempts (reconnectionConfig s) \<le> currentAttempt (reconnectionConfig s) \<Longrightarrow>
   Connect \<notin> set evs \<Longrightarrow>
   scheduled (fst (deliver_all evs s)) = []
   \<and> attempts (reconnectionConfig (snd (deliver_all evs s)))
        \<le> currentAttempt (reconnectionConfig (snd (deliver_all evs s)))"
proof (induction evs arbitrary: s)
  case Nil
  then show ?case by simp
next
  case (Cons ev evs)
  then have ne: "ev \<noteq> Connect" and rest: "Connect \<notin> set evs" by auto
  note d = deliver_exhausted[OF Cons.prems(1) ne]
  from Cons.IH[OF d(2) rest] d(1) show ?case by (simp add: split_beta)
qed

text \<open>
  Claim C4, as amended.  Once the attempt count has reached the configured maximum,
  disconnects and connect errors schedule no retry, and the count stays at the maximum,
  for as long as no connect event arrives (a connect event, like a new
  \<open>setConnection(true, token)\<close>, resets the count).  The signaling channel raises no
  notification, whatever events it receives.
\<close>

theorem C4_exhausted_schedules_nothing:
  assumes "attempts (reconnectionConfig s) \<le> currentAttempt (reconnectionConfig s)"
    and "Connect \<notin> set evs"
  shows "scheduled (fst (deliver_all evs s)) = []
         \<and> attempts (reconnectionConfig (snd (deliver_all evs s)))
              \<le> currentAttempt (reconnectionConfig (snd (deliver_all evs s)))
         \<and> notifications (fst (deliver_all evs s)) = []
         \<and> notifications (fst (deliver_all evs' s')) = []"
  using deliver_all_exhausted[OF assms] by (simp add: notifications_deliver_all)

theorem C4_exhausted_schedules_nothing_witness:
  "attempts (reconnectionConfig exhausted_channel)
     \<le> currentAttempt (reconnectionConfig exhausted_channel)
   \<and> Connect \<notin> set [ConnectError ''timeout'', Disconnect ''transport close'', ConnectionReady,
                       ConnectError ''timeout'']
   \<and> scheduled (fst (deliver_all
        [ConnectError ''timeout'', Disconnect ''transport close'', ConnectionReady,
         ConnectError ''timeout''] exhausted_channel)) = []
   \<and> notifications (fst (deliver_all
        [ConnectError ''timeout'', Disconnect ''transport close'', ConnectionReady,
         ConnectError ''timeout''] exhausted_channel)) = []"
proof -
  have a: "attempts (reconnectionConfig exhausted_channel)
             \<le> currentAttempt (reconnectionConfig exhausted_channel)"
    by code_simp
  have b: "Connect \<notin> set [ConnectError ''timeout'', Disconnect ''transport close'',
                            ConnectionReady, ConnectError ''timeout'']"
    by simp
  from C4_exhausted_schedules_nothing[OF a b] a b show ?thesis by blast
qed

text \<open>
  Claim C4 as stated fails.  Six connect errors in a row exhaust the five retries of the
  constructor's configuration, and no notification is raised; and after the application
  calls \<open>setConnection(true, token)\<close> again, the next connect error schedules a retry.
\<close>

theorem C4_counterexample:
  "scheduled (fst (deliver_all (replicate 6 (ConnectError ''timeout''))
                     (initialize SocketIO_constructor))) = [1000, 1500, 2250, 3375, 5000]
   \<and> notifications (fst (deliver_all (replicate 6 (ConnectError ''timeout''))
                            (initialize SocketIO_constructor))) = []
   \<and> scheduled (fst (deliver (ConnectError ''timeout'') reopened_channel)) = [1000]"
  by code_simp

section \<open>Signaling channel: the handshake of setConnection\<close>

lemma socket_attemptReconnection [simp]: "socket (snd (attemptReconnection s)) = socket s"
  by (simp add: attemptReconnection_def Let_def split_beta)

lemma socket_resetReconnectionAttempts [simp]: "socket (snd (resetReconnectionAttempts s)) = socket s"
  by (simp add: resetReconnectionAttempts_def Let_def split_beta)

lemma socket_initialize_listener [simp]: "socket (snd (initialize_listener ev s)) = socket s"
  by (cases ev) simp_all

lemma handshakes_deliver:
  "map_option handshakes (socket (snd (deliver ev s))) =
     map_option (map (handshake_on ev)) (map_option handshakes (socket s))"
  by (cases ev)
     (auto simp: deliver_def Let_def split_beta run_handshakes_def set_connected_def
           split: option.splits)

lemma handshakes_deliver_all:
  "map_option handshakes (socket (snd (deliver_all evs s))) =
     map_option (map (fold handshake_on evs)) (map_option handshakes (socket s))"
proof (induction evs arbitrary: s)
  case Nil
  then show ?case by (simp add: option.map_ident)
next
  case (Cons ev evs)
  show ?case
    by (simp add: split_beta Cons.IH handshakes_deliver option.map_comp comp_def)
qed

lemma fold_detached: "phase h = Detached \<Longrightarrow> fold handshake_on evs h = h"
proof (induction evs)
  case Nil then show ?case by simp
next
  case (Cons ev evs)
  then show ?case by (cases ev) simp_all
qed

lemma settle_settle [simp]: "settle (settle p v) v = settle p v"
  by (cases p; cases v) (simp_all add: settle_def)

lemma fold_await_ready:
  "phase h = AwaitReady \<Longrightarrow>
   phase (fold handshake_on evs h) = AwaitReady
   \<and> outcome (fold handshake_on evs h) =
       (if ConnectionReady \<in> set evs then settle (outcome h) (Resolved True) else outcome h)"
proof (induction evs arbitrary: h)
  case Nil
  then show ?case by simp
next
  case (Cons ev evs)
  have ph: "phase (handshake_on ev h) = AwaitReady"
    using Cons.prems by (cases ev) simp_all
  show ?case
    using Cons.IH[OF ph] Cons.prems by (cases ev) simp_all
qed

lemma fold_await_connect_quiet:
  "\<not> list_ex settles pre \<Longrightarrow> phase h = AwaitConnect \<Longrightarrow> fold handshake_on pre h = h"
proof (induction pre)
  case Nil
  then show ?case by simp
next
  case (Cons ev pre)
  then show ?case by (cases ev) simp_all
qed

lemma fold_first_error:
  assumes "\<not> list_ex settles pre" "phase h = AwaitConnect" "outcome h = Pending"
  shows "outcome (fold handshake_on (pre @ ConnectError m # post) h) =
           Rejected (JsError ''Error'' (''Connection failed: '' @ m))"
  using assms by (simp add: fold_await_connect_quiet fold_detached settle_def)

lemma fold_first_connect:
  assumes "\<not> list_ex settles pre" "phase h = AwaitConnect" "outcome h = Pending"
  shows "outcome (fold handshake_on (pre @ Connect # rest) h) =
           (if ConnectionReady \<in> set rest then Resolved True else Pending)"
  using assms fold_await_ready[of "h\<lparr>phase := AwaitReady\<rparr>" rest]
  by (simp add: fold_await_connect_quiet settle_def)

lemma fold_resolved_only_after_both:
  assumes "phase h = AwaitConnect" "outcome h = Pending"
    and "outcome (fold handshake_on evs h) = Resolved b"
  shows "b \<and> (\<exists>pre mid post. evs = pre @ Connect # mid @ ConnectionReady # post
                   \<and> \<not> list_ex settles pre)"
proof (cases "list_ex settles evs")
  case False
  then show ?thesis using assms by (simp add: fold_await_connect_quiet)
next
  case True
  then obtain pre e rest where sp: "evs = pre @ e # rest" "settles e" "\<not> list_ex settles pre"
    unfolding list_ex_iff by (metis split_list_first_prop)
  show ?thesis
  proof (cases e)
    case Connect
    with sp assms fold_first_connect[OF sp(3) assms(1,2), of rest]
    have r: "ConnectionReady \<in> set rest" "b"
      by (auto split: if_splits)
    then obtain mid post where "rest = mid @ ConnectionReady # post"
      by (meson split_list)
    with sp Connect r show ?thesis by blast
  next
    case (ConnectError m)
    with sp assms fold_first_error[OF sp(3) assms(1,2), of m rest] show ?thesis by simp
  next
    case (Disconnect r)
    with sp show ?thesis by simp
  next
    case ConnectionReady
    with sp show ?thesis by simp
  qed
qed

lemma setConnection_true:
  assumes "initialized s" "socket s = Some so"
  shows "setConnection True token s =
           Inr (fst (resetReconnectionAttempts s) @ [SocketOpen],
                (snd (resetReconnectionAttempts s))
                  \<lparr>socket := Some (so\<lparr>query := token,
                      handshakes := handshakes so @ [\<lparr>phase = AwaitConnect, outcome = Pending\<rparr>]\<rparr>)\<rparr>,
                Listening (length (handshakes so)))"
  using assms by (simp add: setConnection_def split_beta Let_def)

lemma promise_of_deliver_all:
  assumes "setConnection True token s = Inr (fx, s1, r)" "initialized s" "socket s \<noteq> None"
  shows "promise_of r (snd (deliver_all evs s1)) =
           outcome (fold handshake_on evs \<lparr>phase = AwaitConnect, outcome = Pending\<rparr>)"
proof -
  obtain so where so: "socket s = Some so" using assms(3) by auto
  note sc = setConnection_true[OF assms(2) so, of token]
  from assms(1) sc have r: "r = Listening (length (handshakes so))"
    and s1: "map_option handshakes (socket s1) =
               Some (handshakes so @ [\<lparr>phase = AwaitConnect, outcome = Pending\<rparr>])"
    by auto
  have "map_option handshakes (socket (snd (deliver_all evs s1))) =
          Some (map (fold handshake_on evs) (handshakes so @ [\<lparr>phase = AwaitConnect, outcome = Pending\<rparr>]))"
    by (simp add: handshakes_deliver_all s1)
  then obtain so' where so': "socket (snd (deliver_all evs s1)) = Some so'"
    "handshakes so' = map (fold handshake_on evs) (handshakes so @ [\<lparr>phase = AwaitConnect, outcome = Pending\<rparr>])"
    by auto
  show ?thesis
    by (simp add: promise_of_def r so' nth_append)
qed

text \<open>
  Claim C3, as amended.  For a call \<open>setConnection(true, token)\<close> on an initialised
  channel and the events \<open>evs\<close> that the socket delivers afterwards: the promise is
  resolved only if a connect event came before any connect error and a
  \<open>connection:ready\<close> event came after it, and then with \<open>true\<close>; it is resolved once
  both have come in this order; it is rejected when a connect error comes before any
  connect event; and after the connect event it stays pending until
  \<open>connection:ready\<close>, whatever else arrives.
\<close>

theorem C3_two_phase_handshake:
  assumes "initialized s"
    and "socket s \<noteq> None"
    and "setConnection True token s = Inr (fx, s1, r)"
  shows "(promise_of r (snd (deliver_all evs s1)) = Resolved b \<longrightarrow>
            b \<and> (\<exists>pre mid post. evs = pre @ Connect # mid @ ConnectionReady # post
                       \<and> \<not> list_ex settles pre))
         \<and> (\<not> list_ex settles pre \<longrightarrow>
              promise_of r (snd (deliver_all (pre @ Connect # mid @ ConnectionReady # post) s1)) =
                Resolved True)
         \<and> (\<not> list_ex settles pre \<longrightarrow>
              promise_of r (snd (deliver_all (pre @ ConnectError m # post) s1)) =
                Rejected (JsError ''Error'' (''Connection failed: '' @ m)))
         \<and> (\<not> list_ex settles pre \<and> ConnectionReady \<notin> set mid \<longrightarrow>
              promise_of r (snd (deliver_all (pre @ Connect # mid) s1)) = Pending)"
proof -
  let ?h = "\<lparr>phase = AwaitConnect, outcome = Pending\<rparr>"
  have p: "\<And>es. promise_of r (snd (deliver_all es s1)) = outcome (fold handshake_on es ?h)"
    by (rule promise_of_deliver_all[OF assms(3,1,2)])
  have h: "phase ?h = AwaitConnect" "outcome ?h = Pending" by simp_all
  show ?thesis
  proof (intro conjI impI)
    assume "promise_of r (snd (deliver_all evs s1)) = Resolved b"
    then have "outcome (fold handshake_on evs ?h) = Resolved b" by (simp only: p)
    from fold_resolved_only_after_both[OF h this]
    show "b" and "\<exists>pre mid post. evs = pre @ Connect # mid @ ConnectionReady # post
                       \<and> \<not> list_ex settles pre"
      by blast+
  next
    assume q: "\<not> list_ex settles pre"
    show "promise_of r (snd (deliver_all (pre @ Connect # mid @ ConnectionReady # post) s1)) =
            Resolved True"
      unfolding p using fold_first_connect[OF q h, of "mid @ ConnectionReady # post"] by simp
  next
    assume q: "\<not> list_ex settles pre"
    show "promise_of r (snd (deliver_all (pre @ ConnectError m # post) s1)) =
            Rejected (JsError ''Error'' (''Connection failed: '' @ m))"
      unfolding p by (rule fold_first_error[OF q h])
  next
    assume "\<not> list_ex settles pre \<and> ConnectionReady \<notin> set mid"
    then have q: "\<not> list_ex settles pre" and n: "ConnectionReady \<notin> set mid" by blast+
    show "promise_of r (snd (deliver_all (pre @ Connect # mid) s1)) = Pending"
      unfolding p using fold_first_connect[OF q h, of mid] n by simp
  qed
qed

theorem C3_two_phase_handshake_witness:
  "initialized (initialize SocketIO_constructor)
   \<and> socket (initialize SocketIO_constructor) \<noteq> None
   \<and> setConnection True (Some ''token'') (initialize SocketIO_constructor) =
       Inr ([SocketOpen], connecting, Listening 0)
   \<and> promise_of (Listening 0) (snd (deliver_all [Connect, ConnectionReady] connecting)) =
       Resolved True
   \<and> promise_of (Listening 0) (snd (deliver_all [ConnectError ''timeout''] connecting)) =
       Rejected (JsError ''Error'' ''Connection failed: timeout'')"
proof -
  have a: "initialized (initialize SocketIO_constructor)"
    and b: "socket (initialize SocketIO_constructor) \<noteq> None"
    by (simp_all add: initialize_def)
  have c: "setConnection True (Some ''token'') (initialize SocketIO_constructor) =
             Inr ([SocketOpen], connecting, Listening 0)"
    by code_simp
  have q: "\<not> list_ex settles []" by simp
  note T = C3_two_phase_handshake[OF a b c, of _ _ "[]" "[]" "[]" "''timeout''"]
  from T q have
    "promise_of (Listening 0) (snd (deliver_all ([] @ Connect # [] @ ConnectionReady # []) connecting)) =
       Resolved True"
    "promise_of (Listening 0) (snd (deliver_all ([] @ ConnectError ''timeout'' # []) connecting)) =
       Rejected (JsError ''Error'' (''Connection failed: '' @ ''timeout''))"
    by blast+
  then have
    "promise_of (Listening 0) (snd (deliver_all [Connect, ConnectionReady] connecting)) =
       Resolved True"
    "promise_of (Listening 0) (snd (deliver_all [ConnectError ''timeout''] connecting)) =
       Rejected (JsError ''Error'' ''Connection failed: timeout'')"
    by simp_all
  with a b c show ?thesis by blast
qed

text \<open>
  Claim C3 as stated fails for a transport error that arrives after the connect event
  and before \<open>connection:ready\<close>: the connect listener has removed the error listener,
  and the promise stays pending.
\<close>

theorem C3_counterexample:
  "setConnection True (Some ''token'') (initialize SocketIO_constructor) =
     Inr ([SocketOpen], connecting, Listening 0)
   \<and> promise_of (Listening 0)
        (snd (deliver_all [Connect, Disconnect ''transport close'', ConnectError ''timeout'']
                connecting)) = Pending"
  by code_simp

section \<open>Roster: removal\<close>

lemma findIndex_None_iff: "findIndex P xs = None \<longleftrightarrow> (\<forall>x \<in> set xs. \<not> P x)"
  by (induction xs) auto

lemma findIndex_distinct_key:
  "distinct (map f xs) \<Longrightarrow> c \<in> set xs \<Longrightarrow>
   \<exists>i. findIndex (\<lambda>x. f x = f c) xs = Some i \<and> xs ! i = c
       \<and> splice1 i xs = filter (\<lambda>x. f x \<noteq> f c) xs"
proof (induction xs)
  case Nil
  then show ?case by simp
next
  case (Cons x xs)
  show ?case
  proof (cases "x = c")
    case True
    with Cons.prems have "f c \<notin> f ` set xs" by simp
    then have "\<forall>y \<in> set xs. f y \<noteq> f c" by (metis imageI)
    then have "filter (\<lambda>y. f y \<noteq> f c) xs = xs"
      by (simp add: filter_id_conv)
    with True show ?thesis by (simp add: splice1_def)
  next
    case False
    with Cons.prems have c: "c \<in> set xs" and d: "distinct (map f xs)" and ne: "f x \<noteq> f c"
      by auto
    from Cons.IH[OF d c] obtain i where
      "findIndex (\<lambda>x. f x = f c) xs = Some i" "xs ! i = c"
      "splice1 i xs = filter (\<lambda>x. f x \<noteq> f c) xs" by blast
    with ne show ?thesis by (simp add: splice1_def)
  qed
qed

lemma People_remove_absent:
  "pid \<notin> peerJsId ` set (connections p) \<Longrightarrow> People_remove cr pid p = ([], p, Returns ())"
proof -
  assume "pid \<notin> peerJsId ` set (connections p)"
  then have "findIndex (\<lambda>x. peerJsId x = pid) (connections p) = None"
    by (auto simp: findIndex_None_iff)
  then show ?thesis by (simp add: People_remove_def)
qed

lemma People_remove_present:
  assumes "c \<in> set (connections p)" "peerJsId c = pid"
    and "distinct (map peerJsId (connections p))"
    and "cr (mediaConnection c) = None" "cr (dataConnection c) = None"
  shows "People_remove cr pid p =
           ([CloseConnection (mediaConnection c), CloseConnection (dataConnection c),
             ScheduleStreamReset 10],
            p\<lparr>connections := filter (\<lambda>x. peerJsId x \<noteq> pid) (connections p)\<rparr>,
            Returns ())"
proof -
  from findIndex_distinct_key[OF assms(3,1)] assms(2) obtain i where
    "findIndex (\<lambda>x. peerJsId x = pid) (connections p) = Some i" "connections p ! i = c"
    "splice1 i (connections p) = filter (\<lambda>x. peerJsId x \<noteq> pid) (connections p)"
    by auto
  with assms(4,5) show ?thesis by (simp add: People_remove_def Let_def)
qed

lemma People_add_keeps_roster_invariant:
  assumes "distinct (map peerJsId (connections p))"
    and "\<forall>x \<in> set (connections p). id' x = peerJsId x"
  shows "distinct (map peerJsId (connections (fst (snd (People_add information mediaConn dataConn data p)))))
         \<and> (\<forall>x \<in> set (connections (fst (snd (People_add information mediaConn dataConn data p)))).
               id' x = peerJsId x)"
proof (cases "find (\<lambda>x. id' x = peer mediaConn) (connections p)")
  case (Some user)
  with assms show ?thesis by (simp add: People_add_def)
next
  case None
  then have fresh: "\<forall>x \<in> set (connections p). peerJsId x \<noteq> peer mediaConn"
    using assms(2) by (auto simp: find_None_iff)
  show ?thesis
  proof (cases information)
    case None
    with assms show ?thesis by (simp add: People_add_def split: option.splits)
  next
    case (Some info)
    with \<open>find (\<lambda>x. id' x = peer mediaConn) (connections p) = None\<close> assms fresh
    show ?thesis
      by (cases data) (auto simp: People_add_def Let_def)
  qed
qed

lemma People_remove_close_throws:
  assumes "c \<in> set (connections p)" "peerJsId c = pid"
    and "distinct (map peerJsId (connections p))"
  shows "cr (mediaConnection c) = Some e \<Longrightarrow>
           People_remove cr pid p = ([CloseConnection (mediaConnection c)], p, Throws e)"
    and "cr (mediaConnection c) = None \<Longrightarrow> cr (dataConnection c) = Some e \<Longrightarrow>
           People_remove cr pid p =
             ([CloseConnection (mediaConnection c), CloseConnection (dataConnection c)], p, Throws e)"
proof -
  from findIndex_distinct_key[OF assms(3,1)] assms(2) obtain i where
    i: "findIndex (\<lambda>x. peerJsId x = pid) (connections p) = Some i" "connections p ! i = c"
    by auto
  show "cr (mediaConnection c) = Some e \<Longrightarrow>
           People_remove cr pid p = ([CloseConnection (mediaConnection c)], p, Throws e)"
    using i by (simp add: People_remove_def Let_def)
  show "cr (mediaConnection c) = None \<Longrightarrow> cr (dataConnection c) = Some e \<Longrightarrow>
           People_remove cr pid p =
             ([CloseConnection (mediaConnection c), CloseConnection (dataConnection c)], p, Throws e)"
    using i by (simp add: People_remove_def Let_def)
qed

text \<open>
  Claim C6, as amended.  Removing a peer id that no roster entry has returns without an
  exception and changes nothing.  For a peer id that an entry \<open>c\<close> has, in a roster with
  at most one entry per peer id: when \<open>close()\<close> of both sub-connections of \<open>c\<close>
  returns, the first \<open>remove\<close> closes the media and the data sub-connection once each,
  deletes the entry and schedules the stream reset, and the second \<open>remove\<close> does
  nothing; when a \<open>close()\<close> throws, \<open>remove\<close> throws that error, after the calls
  of \<open>close()\<close> made so far, and leaves the entry in the roster, so that the next
  \<open>remove\<close> starts in the same state and calls \<open>close()\<close> again.
\<close>

theorem C6_remove_absent_and_twice:
  "(pid \<notin> peerJsId ` set (connections p) \<longrightarrow>
      People_remove cr pid p = ([], p, Returns ()))
   \<and> (c \<in> set (connections p) \<and> peerJsId c = pid
        \<and> distinct (map peerJsId (connections p))
        \<and> cr (mediaConnection c) = None \<and> cr (dataConnection c) = None \<longrightarrow>
        People_remove cr pid p =
          ([CloseConnection (mediaConnection c), CloseConnection (dataConnection c),
            ScheduleStreamReset 10],
           p\<lparr>connections := filter (\<lambda>x. peerJsId x \<noteq> pid) (connections p)\<rparr>,
           Returns ())
        \<and> People_remove cr pid
            (p\<lparr>connections := filter (\<lambda>x. peerJsId x \<noteq> pid) (connections p)\<rparr>) =
          ([], p\<lparr>connections := filter (\<lambda>x. peerJsId x \<noteq> pid) (connections p)\<rparr>,
           Returns ()))
   \<and> (c \<in> set (connections p) \<and> peerJsId c = pid
        \<and> distinct (map peerJsId (connections p))
        \<and> cr (mediaConnection c) = Some e \<longrightarrow>
        People_remove cr pid p = ([CloseConnection (mediaConnection c)], p, Throws e))
   \<and> (c \<in> set (connections p) \<and> peerJsId c = pid
        \<and> distinct (map peerJsId (connections p))
        \<and> cr (mediaConnection c) = None \<and> cr (dataConnection c) = Some e \<longrightarrow>
        People_remove cr pid p =
          ([CloseConnection (mediaConnection c), CloseConnection (dataConnection c)], p, Throws e))"
proof (intro conjI impI)
  assume "pid \<notin> peerJsId ` set (connections p)"
  then show "People_remove cr pid p = ([], p, Returns ())"
    by (rule People_remove_absent)
next
  assume a: "c \<in> set (connections p) \<and> peerJsId c = pid
        \<and> distinct (map peerJsId (connections p))
        \<and> cr (mediaConnection c) = None \<and> cr (dataConnection c) = None"
  then show "People_remove cr pid p =
          ([CloseConnection (mediaConnection c), CloseConnection (dataConnection c),
            ScheduleStreamReset 10],
           p\<lparr>connections := filter (\<lambda>x. peerJsId x \<noteq> pid) (connections p)\<rparr>,
           Returns ())"
    by (intro People_remove_present) blast+
next
  let ?p' = "p\<lparr>connections := filter (\<lambda>x. peerJsId x \<noteq> pid) (connections p)\<rparr>"
  have "pid \<notin> peerJsId ` set (connections ?p')" by auto
  then show "People_remove cr pid ?p' = ([], ?p', Returns ())"
    by (rule People_remove_absent)
next
  assume "c \<in> set (connections p) \<and> peerJsId c = pid
        \<and> distinct (map peerJsId (connections p))
        \<and> cr (mediaConnection c) = Some e"
  then show "People_remove cr pid p = ([CloseConnection (mediaConnection c)], p, Throws e)"
    by (intro People_remove_close_throws(1)) blast+
next
  assume "c \<in> set (connections p) \<and> peerJsId c = pid
        \<and> distinct (map peerJsId (connections p))
        \<and> cr (mediaConnection c) = None \<and> cr (dataConnection c) = Some e"
  then show "People_remove cr pid p =
          ([CloseConnection (mediaConnection c), CloseConnection (dataConnection c)], p, Throws e)"
    by (intro People_remove_close_throws(2)) blast+
qed

theorem C6_remove_absent_and_twice_witness:
  "''p9'' \<notin> peerJsId ` set (connections people_two)
   \<and> People_remove closes_normally ''p9'' people_two = ([], people_two, Returns ())
   \<and> entry_p1 \<in> set (connections people_two)
   \<and> peerJsId entry_p1 = ''p1''
   \<and> distinct (map peerJsId (connections people_two))
   \<and> closes_normally (mediaConnection entry_p1) = None
   \<and> closes_normally (dataConnection entry_p1) = None
   \<and> People_remove closes_normally ''p1'' people_two =
       ([CloseConnection 1, CloseConnection 2, ScheduleStreamReset 10],
        People_setup [entry_p2] [], Returns ())
   \<and> People_remove closes_normally ''p1'' (People_setup [entry_p2] []) =
       ([], People_setup [entry_p2] [], Returns ())
   \<and> data_close_throws (mediaConnection entry_p1) = None
   \<and> data_close_throws (dataConnection entry_p1) = Some (JsError ''Error'' ''close failed'')
   \<and> People_remove data_close_throws ''p1'' people_two =
       ([CloseConnection 1, CloseConnection 2], people_two,
        Throws (JsError ''Error'' ''close failed''))"
proof -
  have a: "''p9'' \<notin> peerJsId ` set (connections people_two)"
    by (simp add: people_two_def People_setup_def entry_p1_def entry_p2_def)
  have b: "entry_p1 \<in> set (connections people_two) \<and> peerJsId entry_p1 = ''p1''
        \<and> distinct (map peerJsId (connections people_two))
        \<and> closes_normally (mediaConnection entry_p1) = None
        \<and> closes_normally (dataConnection entry_p1) = None"
    by (simp add: people_two_def People_setup_def entry_p1_def entry_p2_def closes_normally_def)
  have t: "entry_p1 \<in> set (connections people_two) \<and> peerJsId entry_p1 = ''p1''
        \<and> distinct (map peerJsId (connections people_two))
        \<and> data_close_throws (mediaConnection entry_p1) = None
        \<and> data_close_throws (dataConnection entry_p1) = Some (JsError ''Error'' ''close failed'')"
    by (simp add: people_two_def People_setup_def entry_p1_def entry_p2_def data_close_throws_def)
  have f: "people_two\<lparr>connections := filter (\<lambda>x. peerJsId x \<noteq> ''p1'') (connections people_two)\<rparr> =
             People_setup [entry_p2] []"
    by (simp add: people_two_def People_setup_def entry_p1_def entry_p2_def)
  have m: "mediaConnection entry_p1 = 1" "dataConnection entry_p1 = 2"
    by (simp_all add: entry_p1_def)
  note T1 = C6_remove_absent_and_twice[where pid = "''p9''" and p = people_two
              and cr = closes_normally, THEN conjunct1, rule_format, OF a]
  note T2 = C6_remove_absent_and_twice[where pid = "''p1''" and p = people_two
              and cr = closes_normally and c = entry_p1, THEN conjunct2, THEN conjunct1,
              rule_format, OF b, unfolded f m]
  note T3 = C6_remove_absent_and_twice[where pid = "''p1''" and p = people_two
              and cr = data_close_throws and c = entry_p1
              and e = "JsError ''Error'' ''close failed''", THEN conjunct2, THEN conjunct2,
              THEN conjunct2, rule_format, OF t, unfolded m]
  from a b t T1 T2 T3 show ?thesis unfolding m by blast
qed

text \<open>
  Claim C6 as stated fails when \<open>close()\<close> throws: with the data sub-connection of
  peer \<open>p1\<close> throwing, the first \<open>remove\<close> calls \<open>close()\<close> on both sub-connections,
  throws and leaves the roster as it was, and the second \<open>remove\<close> is no no-op: it calls
  \<open>close()\<close> on the media sub-connection a second time.
\<close>

theorem C6_counterexample:
  "People_remove data_close_throws ''p1'' people_two =
     ([CloseConnection 1, CloseConnection 2], people_two,
      Throws (JsError ''Error'' ''close failed''))
   \<and> fst (People_remove data_close_throws ''p1''
           (fst (snd (People_remove data_close_throws ''p1'' people_two)))) =
       [CloseConnection 1, CloseConnection 2]"
  by (simp add: People_remove_def people_two_def People_setup_def entry_p1_def entry_p2_def
        data_close_throws_def Let_def)

section \<open>Roster: a fresh entry\<close>

text \<open>
  Claim C10.  When \<open>add\<close> is called for a peer id that no roster entry has, and the room
  information is there, it returns \<open>true\<close> and appends exactly one entry, which has the
  peer's id, camera-mute and mic-mute true, and share, record and activity false.
  (Without room information the call throws and the roster is as before.)
\<close>

theorem C10_fresh_entry_is_muted_and_inactive:
  assumes "peer mediaConn \<notin> id' ` set (connections p)"
  shows "(\<exists>e. People_add (Some info) mediaConn dataConn data p =
              ([ListenOpen (handle dataConn), ListenStream (handle mediaConn)],
               p\<lparr>connections := connections p @ [e]\<rparr>, Returns True)
            \<and> id' e = peer mediaConn \<and> peerJsId e = peer mediaConn
            \<and> camMute e \<and> micMute e \<and> \<not> share e \<and> \<not> record' e \<and> \<not> active e)
         \<and> fst (snd (People_add None mediaConn dataConn data p)) = p"
proof -
  from assms have "\<forall>x \<in> set (connections p). id' x \<noteq> peer mediaConn" by (metis imageI)
  then have fresh: "find (\<lambda>x. id' x = peer mediaConn) (connections p) = None"
    by (simp add: find_None_iff)
  define userItem where "userItem = find (\<lambda>x. user_peerJsId x = peer mediaConn) (users info)"
  define connection where "connection =
     \<lparr>id' = peer mediaConn, peerJsId = peer mediaConn,
      mediaConnection = handle mediaConn, dataConnection = handle dataConn,
      active = False, camMute = True, micMute = True, share = False, record' = False,
      name = (case userItem of None \<Rightarrow> [] | Some u \<Rightarrow> user_name u),
      isCreator = (case userItem of None \<Rightarrow> False | Some u \<Rightarrow> user_roomCreator u)\<rparr>"
  define e where "e =
     (case data of
        None \<Rightarrow> connection
      | Some d \<Rightarrow> connection\<lparr>name := data_name d, isCreator := data_roomCreator d\<rparr>)"
  have r: "People_add (Some info) mediaConn dataConn data p =
              ([ListenOpen (handle dataConn), ListenStream (handle mediaConn)],
               p\<lparr>connections := connections p @ [e]\<rparr>, Returns True)"
    unfolding e_def connection_def userItem_def by (simp add: People_add_def Let_def fresh)
  have f: "id' e = peer mediaConn \<and> peerJsId e = peer mediaConn
            \<and> camMute e \<and> micMute e \<and> \<not> share e \<and> \<not> record' e \<and> \<not> active e"
    by (cases data) (simp_all add: e_def connection_def)
  have n: "fst (snd (People_add None mediaConn dataConn data p)) = p"
    by (simp add: People_add_def fresh)
  from r f n show ?thesis by blast
qed

theorem C10_fresh_entry_is_muted_and_inactive_witness:
  "peer (PeerConnection ''p3'' 5) \<notin> id' ` set (connections people_two)
   \<and> fst (People_add (Some room_two) (PeerConnection ''p3'' 5) (PeerConnection ''p3'' 6) None
            people_two) = [ListenOpen 6, ListenStream 5]
   \<and> snd (snd (People_add (Some room_two) (PeerConnection ''p3'' 5) (PeerConnection ''p3'' 6) None
            people_two)) = Returns True
   \<and> butlast (connections (fst (snd (People_add (Some room_two) (PeerConnection ''p3'' 5)
            (PeerConnection ''p3'' 6) None people_two)))) = [entry_p1, entry_p2]
   \<and> id' (last (connections (fst (snd (People_add (Some room_two) (PeerConnection ''p3'' 5)
            (PeerConnection ''p3'' 6) None people_two))))) = ''p3''
   \<and> camMute (last (connections (fst (snd (People_add (Some room_two) (PeerConnection ''p3'' 5)
            (PeerConnection ''p3'' 6) None people_two)))))
   \<and> micMute (last (connections (fst (snd (People_add (Some room_two) (PeerConnection ''p3'' 5)
            (PeerConnection ''p3'' 6) None people_two)))))
   \<and> \<not> share (last (connections (fst (snd (People_add (Some room_two) (PeerConnection ''p3'' 5)
            (PeerConnection ''p3'' 6) None people_two)))))
   \<and> \<not> record' (last (connections (fst (snd (People_add (Some room_two) (PeerConnection ''p3'' 5)
            (PeerConnection ''p3'' 6) None people_two)))))
   \<and> \<not> active (last (connections (fst (snd (People_add (Some room_two) (PeerConnection ''p3'' 5)
            (PeerConnection ''p3'' 6) None people_two)))))"
proof -
  have a: "peer (PeerConnection ''p3'' 5) \<notin> id' ` set (connections people_two)"
    by (simp add: people_two_def People_setup_def entry_p1_def entry_p2_def)
  have c: "connections people_two = [entry_p1, entry_p2]"
    by (simp add: people_two_def People_setup_def)
  from C10_fresh_entry_is_muted_and_inactive[OF a, of room_two "PeerConnection ''p3'' 6" None]
  obtain e where e: "People_add (Some room_two) (PeerConnection ''p3'' 5) (PeerConnection ''p3'' 6) None people_two =
              ([ListenOpen (handle (PeerConnection ''p3'' 6)), ListenStream (handle (PeerConnection ''p3'' 5))],
               people_two\<lparr>connections := connections people_two @ [e]\<rparr>, Returns True)"
    and f: "id' e = peer (PeerConnection ''p3'' 5)" "camMute e" "micMute e" "\<not> share e"
      "\<not> record' e" "\<not> active e"
    by blast
  from a f show ?thesis by (simp add: e c)
qed

section \<open>Peer-data subscriptions: registering twice\<close>

lemma find_append_first:
  "find P (xs @ ys) = (case find P xs of None \<Rightarrow> find P ys | Some x \<Rightarrow> Some x)"
  by (induction xs) simp_all

text \<open>
  Claim C8, as amended.  Registering a handler under a (channel tag, event name) key
  appends it to the list of subscriptions and replaces nothing.  When the key already
  has a handler, a later inbound message for the key still invokes the handler that was
  registered first; the new handler is invoked only when the key had none.
\<close>

theorem C8_first_registration_wins:
  "(find (\<lambda>x. handler_type x = type \<and> handler_event x = event) events = Some h \<longrightarrow>
      Events_addEventHandler type event (Function f) events =
        Inr (events @ [EventHandler type event f])
      \<and> Events_executeHandler type event d (events @ [EventHandler type event f]) =
          Some (handler_method h d))
   \<and> (find (\<lambda>x. handler_type x = type \<and> handler_event x = event) events = None \<longrightarrow>
        Events_addEventHandler type event (Function f) events =
          Inr (events @ [EventHandler type event f])
        \<and> Events_executeHandler type event d (events @ [EventHandler type event f]) =
            Some (f d))"
  by (simp add: Events_addEventHandler_def Events_executeHandler_def find_append_first)

theorem C8_first_registration_wins_witness:
  "find (\<lambda>x. handler_type x = ''peerJsData'' \<and> handler_event x = ''chat'')
      [EventHandler ''peerJsData'' ''chat'' first_handler] =
     Some (EventHandler ''peerJsData'' ''chat'' first_handler)
   \<and> Events_addEventHandler ''peerJsData'' ''chat'' (Function second_handler)
        [EventHandler ''peerJsData'' ''chat'' first_handler] = Inr registered_twice
   \<and> Events_executeHandler ''peerJsData'' ''chat'' 5 registered_twice = Some 6"
proof -
  have a: "find (\<lambda>x. handler_type x = ''peerJsData'' \<and> handler_event x = ''chat'')
      [EventHandler ''peerJsData'' ''chat'' first_handler] =
     Some (EventHandler ''peerJsData'' ''chat'' first_handler)"
    by simp
  note T = C8_first_registration_wins[where type = "''peerJsData''" and event = "''chat''"
      and events = "[EventHandler ''peerJsData'' ''chat'' first_handler]"
      and h = "EventHandler ''peerJsData'' ''chat'' first_handler" and f = second_handler
      and d = 5, THEN conjunct1, rule_format, OF a]
  have r: "[EventHandler ''peerJsData'' ''chat'' first_handler]
             @ [EventHandler ''peerJsData'' ''chat'' second_handler] = registered_twice"
    by (simp add: registered_twice_def)
  from T have "Events_addEventHandler ''peerJsData'' ''chat'' (Function second_handler)
        [EventHandler ''peerJsData'' ''chat'' first_handler] = Inr registered_twice"
    and "Events_executeHandler ''peerJsData'' ''chat'' 5 registered_twice = Some 6"
    unfolding r by (simp_all add: first_handler_def)
  with a show ?thesis by blast
qed

text \<open>
  Claim C8 as stated fails: after \<open>first_handler\<close> and then \<open>second_handler\<close> have
  been registered under the same key, a message for the key invokes \<open>first_handler\<close>.
\<close>

theorem C8_counterexample:
  "Events_addEventHandler ''peerJsData'' ''chat'' (Function first_handler) Events_setup =
     Inr [EventHandler ''peerJsData'' ''chat'' first_handler]
   \<and> Events_addEventHandler ''peerJsData'' ''chat'' (Function second_handler)
        [EventHandler ''peerJsData'' ''chat'' first_handler] = Inr registered_twice
   \<and> Events_executeHandler ''peerJsData'' ''chat'' 0 registered_twice = Some (first_handler 0)
   \<and> first_handler 0 \<noteq> second_handler 0"
  by (simp add: Events_addEventHandler_def Events_executeHandler_def Events_setup_def
        registered_twice_def first_handler_def second_handler_def)

section \<open>Action dispatch\<close>

lemma findIndex_Some_nth:
  "findIndex P xs = Some i \<Longrightarrow> i < length xs \<and> P (xs ! i)"
proof (induction xs arbitrary: i)
  case Nil
  then show ?case by simp
next
  case (Cons x xs)
  then show ?case by (auto split: if_splits)
qed

lemma findIndex_append_fresh:
  "findIndex P xs = None \<Longrightarrow> P x \<Longrightarrow> findIndex P (xs @ [x]) = Some (length xs)"
  by (induction xs) (auto split: if_splits)

text \<open>What \<open>resolve_item\<close> gives is in the registry it returns, under the action's name,
  and resolving again from that registry gives the same item and the same registry,
  whatever the custom and built-in actions are then.\<close>

lemma resolve_item_caches:
  assumes "resolve_item custom builtin n acts = Some (item, acts')"
  shows "\<exists>i. findIndex (\<lambda>x. fst x = n) acts' = Some i \<and> acts' ! i = (n, item)"
    and "resolve_item custom' builtin' n acts' = Some (item, acts')"
proof -
  have "\<exists>i. findIndex (\<lambda>x. fst x = n) acts' = Some i \<and> acts' ! i = (n, item)"
  proof (cases "findIndex (\<lambda>x. fst x = n) acts")
    case (Some i)
    with assms have e: "acts' = acts" "item = snd (acts ! i)"
      by (auto simp: resolve_item_def)
    from findIndex_Some_nth[OF Some] have "fst (acts ! i) = n" by simp
    with Some e show ?thesis by (simp add: prod_eq_iff)
  next
    case None
    with assms have e: "acts' = acts @ [(n, item)]"
      by (auto simp: resolve_item_def split: option.splits)
    from findIndex_append_fresh[OF None, of "(n, item)"]
    have "findIndex (\<lambda>x. fst x = n) (acts @ [(n, item)]) = Some (length acts)" by simp
    with e show ?thesis by simp
  qed
  then show "\<exists>i. findIndex (\<lambda>x. fst x = n) acts' = Some i \<and> acts' ! i = (n, item)" .
  then show "resolve_item custom' builtin' n acts' = Some (item, acts')"
    by (auto simp: resolve_item_def)
qed

text \<open>
  Claim C2, as amended.  When the handler that the dispatcher resolves for an envelope
  throws, the dispatcher's catch block throws the same error on to its caller; beyond
  what the handler itself did, nothing is emitted, neither a failure notification nor
  the \<open>on...Action\<close> notification of a successful run.  (When the handler returns, the
  \<open>on...Action\<close> notification with the envelope's attributes follows; when no handler
  can be found, the dispatcher throws as well.)  Whether the handler throws or returns,
  it stays cached in \<open>Room.actions\<close> under the action's name: the registry after the
  call holds it, and a later dispatch of that name finds it there and leaves the
  registry as it is, whatever the custom and built-in actions are by then.
\<close>

theorem C2_handler_exception_is_rethrown:
  "(resolve_item custom builtin (kebabToCamel (action_name act)) acts = Some (actionItem, acts')
      \<and> actionItem act = (fx, Some error) \<longrightarrow>
      Room_runRequestedAction custom builtin act acts = (fx, acts', Throws error))
   \<and> (resolve_item custom builtin (kebabToCamel (action_name act)) acts = Some (actionItem, acts')
        \<and> actionItem act = (fx, None) \<longrightarrow>
        Room_runRequestedAction custom builtin act acts =
          (fx @ [Emit (''on'' @ capitalize (kebabToCamel (action_name act)) @ ''Action'')
                   (action_attributes act)],
           acts', Returns ()))
   \<and> (resolve_item custom builtin (kebabToCamel (action_name act)) acts = None \<longrightarrow>
        fst (Room_runRequestedAction custom builtin act acts) = []
        \<and> (\<exists>e. snd (snd (Room_runRequestedAction custom builtin act acts)) = Throws e))
   \<and> (resolve_item custom builtin (kebabToCamel (action_name act)) acts = Some (actionItem, acts')
        \<longrightarrow>
        (\<exists>i. findIndex (\<lambda>x. fst x = kebabToCamel (action_name act))
                (fst (snd (Room_runRequestedAction custom builtin act acts))) = Some i
             \<and> fst (snd (Room_runRequestedAction custom builtin act acts)) ! i =
                 (kebabToCamel (action_name act), actionItem))
        \<and> resolve_item custom' builtin' (kebabToCamel (action_name act))
              (fst (snd (Room_runRequestedAction custom builtin act acts))) =
            Some (actionItem, fst (snd (Room_runRequestedAction custom builtin act acts)))
        \<and> Room_runRequestedAction custom' builtin' act
              (fst (snd (Room_runRequestedAction custom builtin act acts))) =
            run_item actionItem (kebabToCamel (action_name act)) act
              (fst (snd (Room_runRequestedAction custom builtin act acts))))"
proof -
  have r: "resolve_item custom builtin (kebabToCamel (action_name act)) acts = Some (actionItem, acts')
           \<Longrightarrow> fst (snd (Room_runRequestedAction custom builtin act acts)) = acts'"
    by (cases "actionItem act"; cases "snd (actionItem act)")
       (auto simp: Room_runRequestedAction_def run_item_def)
  have four: "resolve_item custom builtin (kebabToCamel (action_name act)) acts = Some (actionItem, acts')
        \<longrightarrow>
        (\<exists>i. findIndex (\<lambda>x. fst x = kebabToCamel (action_name act))
                (fst (snd (Room_runRequestedAction custom builtin act acts))) = Some i
             \<and> fst (snd (Room_runRequestedAction custom builtin act acts)) ! i =
                 (kebabToCamel (action_name act), actionItem))
        \<and> resolve_item custom' builtin' (kebabToCamel (action_name act))
              (fst (snd (Room_runRequestedAction custom builtin act acts))) =
            Some (actionItem, fst (snd (Room_runRequestedAction custom builtin act acts)))
        \<and> Room_runRequestedAction custom' builtin' act
              (fst (snd (Room_runRequestedAction custom builtin act acts))) =
            run_item actionItem (kebabToCamel (action_name act)) act
              (fst (snd (Room_runRequestedAction custom builtin act acts)))"
  proof
    assume a: "resolve_item custom builtin (kebabToCamel (action_name act)) acts = Some (actionItem, acts')"
    note c = resolve_item_caches(1)[OF a] resolve_item_caches(2)[OF a, of custom' builtin']
    have "Room_runRequestedAction custom' builtin' act acts' =
            run_item actionItem (kebabToCamel (action_name act)) act acts'"
      by (simp add: Room_runRequestedAction_def c(2))
    with c show "(\<exists>i. findIndex (\<lambda>x. fst x = kebabToCamel (action_name act))
                (fst (snd (Room_runRequestedAction custom builtin act acts))) = Some i
             \<and> fst (snd (Room_runRequestedAction custom builtin act acts)) ! i =
                 (kebabToCamel (action_name act), actionItem))
        \<and> resolve_item custom' builtin' (kebabToCamel (action_name act))
              (fst (snd (Room_runRequestedAction custom builtin act acts))) =
            Some (actionItem, fst (snd (Room_runRequestedAction custom builtin act acts)))
        \<and> Room_runRequestedAction custom' builtin' act
              (fst (snd (Room_runRequestedAction custom builtin act acts))) =
            run_item actionItem (kebabToCamel (action_name act)) act
              (fst (snd (Room_runRequestedAction custom builtin act acts)))"
      unfolding r[OF a] by blast
  qed
  have three: "(resolve_item custom builtin (kebabToCamel (action_name act)) acts = Some (actionItem, acts')
      \<and> actionItem act = (fx, Some error) \<longrightarrow>
      Room_runRequestedAction custom builtin act acts = (fx, acts', Throws error))
   \<and> (resolve_item custom builtin (kebabToCamel (action_name act)) acts = Some (actionItem, acts')
        \<and> actionItem act = (fx, None) \<longrightarrow>
        Room_runRequestedAction custom builtin act acts =
          (fx @ [Emit (''on'' @ capitalize (kebabToCamel (action_name act)) @ ''Action'')
                   (action_attributes act)],
           acts', Returns ()))
   \<and> (resolve_item custom builtin (kebabToCamel (action_name act)) acts = None \<longrightarrow>
        fst (Room_runRequestedAction custom builtin act acts) = []
        \<and> (\<exists>e. snd (snd (Room_runRequestedAction custom builtin act acts)) = Throws e))"
    by (simp add: Room_runRequestedAction_def run_item_def)
  show ?thesis
    by (rule conjI[OF three[THEN conjunct1]
          conjI[OF three[THEN conjunct2, THEN conjunct1]
            conjI[OF three[THEN conjunct2, THEN conjunct2] four]]])
qed

text \<open>A second dispatch of the failing envelope, with no custom and no built-in action
  left, still finds the cached handler and throws its error.\<close>

theorem C2_handler_exception_is_rethrown_witness:
  "resolve_item custom_actions builtin_actions (kebabToCamel (action_name (Action ''failing'' ''{}'' [] False))) [] =
     Some (failing_item, [(''failing'', failing_item)])
   \<and> failing_item (Action ''failing'' ''{}'' [] False) = ([], Some (JsError ''Error'' ''boom''))
   \<and> Room_runRequestedAction custom_actions builtin_actions (Action ''failing'' ''{}'' [] False) [] =
       ([], [(''failing'', failing_item)], Throws (JsError ''Error'' ''boom''))
   \<and> Room_runRequestedAction no_actions no_actions (Action ''failing'' ''{}'' [] False)
        [(''failing'', failing_item)] =
       ([], [(''failing'', failing_item)], Throws (JsError ''Error'' ''boom''))"
proof -
  have a: "resolve_item custom_actions builtin_actions
             (kebabToCamel (action_name (Action ''failing'' ''{}'' [] False))) [] =
           Some (failing_item, [(''failing'', failing_item)])"
    and f: "failing_item (Action ''failing'' ''{}'' [] False) = ([], Some (JsError ''Error'' ''boom''))"
    by (simp_all add: resolve_item_def custom_actions_def failing_item_def isLower_def)
  note T = C2_handler_exception_is_rethrown[where custom = custom_actions
      and builtin = builtin_actions and act = "Action ''failing'' ''{}'' [] False" and acts = "[]"
      and actionItem = failing_item and acts' = "[(''failing'', failing_item)]"
      and fx = "[]" and error = "JsError ''Error'' ''boom''"
      and custom' = no_actions and builtin' = no_actions]
  from T a f have one: "Room_runRequestedAction custom_actions builtin_actions
       (Action ''failing'' ''{}'' [] False) [] =
       ([], [(''failing'', failing_item)], Throws (JsError ''Error'' ''boom''))"
    by blast
  from T a have "Room_runRequestedAction no_actions no_actions (Action ''failing'' ''{}'' [] False)
        (fst (snd (Room_runRequestedAction custom_actions builtin_actions
                     (Action ''failing'' ''{}'' [] False) []))) =
      run_item failing_item (kebabToCamel (action_name (Action ''failing'' ''{}'' [] False)))
        (Action ''failing'' ''{}'' [] False)
        (fst (snd (Room_runRequestedAction custom_actions builtin_actions
                     (Action ''failing'' ''{}'' [] False) [])))"
    by blast
  then have two: "Room_runRequestedAction no_actions no_actions (Action ''failing'' ''{}'' [] False)
        [(''failing'', failing_item)] =
       ([], [(''failing'', failing_item)], Throws (JsError ''Error'' ''boom''))"
    unfolding one by (simp add: run_item_def f)
  from a f one two show ?thesis by blast
qed

text \<open>
  Claim C2 as stated fails: the envelope \<open>failing\<close> resolves to a handler that throws,
  and the dispatcher throws that error to its caller and emits nothing.
\<close>

theorem C2_counterexample:
  "Room_runRequestedAction custom_actions builtin_actions (Action ''failing'' ''{}'' [] False) [] =
     ([], [(''failing'', failing_item)], Throws (JsError ''Error'' ''boom''))"
  by (simp add: Room_runRequestedAction_def resolve_item_def run_item_def custom_actions_def
        failing_item_def isLower_def)

section \<open>Leaving a room\<close>

lemma isConnected_initialized: "isConnected s \<Longrightarrow> initialized s \<and> socket s \<noteq> None"
  by (auto simp: isConnected_def split: option.splits)

lemma Room_left_ack_closes:
  assumes "isConnected s"
  shows "Room_left_ack s = (fst (disconnect s), None, Returns ())"
    and "SocketClose \<in> set (fst (disconnect s))"
  using isConnected_initialized[OF assms]
  by (auto simp: Room_left_ack_def setConnection_def disconnect_def split_beta Let_def)

text \<open>
  Claim C5, as amended.  With a room joined and the signaling channel connected,
  \<open>left\<close> runs, in this order: the roster teardown (whose own failures are swallowed
  inside \<open>closeAll\<close>, so the next step always runs), the release of local media, the
  peer-transport disconnect, the destruction of a share stream if there is one, and the
  \<open>left-room\<close> notification of the server.  The first of the steps after the teardown
  that throws ends the sequence: the later steps are not attempted and the call fails
  with an error.  When no step throws the call returns \<open>true\<close>.  The signaling channel
  is closed afterwards, by the acknowledgement callback of \<open>left-room\<close>.
\<close>

theorem C5_left_stops_at_first_failure:
  assumes "isConnected s" and "room_id info \<noteq> []"
  shows "fst (snd (Room_left env (Some s) (Some info) p)) = snd (People_closeAll (closeResult env) p)
    \<and> (releaseResult env = Some e \<longrightarrow>
         fst (Room_left env (Some s) (Some info) p) =
           map PeopleEffect (fst (People_closeAll (closeResult env) p)) @ [MediaRelease]
         \<and> (\<exists>e'. snd (snd (Room_left env (Some s) (Some info) p)) = Throws e'))
    \<and> (releaseResult env = None \<and> peerDisconnectResult env = Some e \<longrightarrow>
         fst (Room_left env (Some s) (Some info) p) =
           map PeopleEffect (fst (People_closeAll (closeResult env) p))
             @ [MediaRelease, PeerDisconnect]
         \<and> (\<exists>e'. snd (snd (Room_left env (Some s) (Some info) p)) = Throws e'))
    \<and> (releaseResult env = None \<and> peerDisconnectResult env = None
         \<and> shareMedia env = Some (Some e) \<longrightarrow>
         fst (Room_left env (Some s) (Some info) p) =
           map PeopleEffect (fst (People_closeAll (closeResult env) p))
             @ [MediaRelease, PeerDisconnect, ShareMediaDestroy]
         \<and> (\<exists>e'. snd (snd (Room_left env (Some s) (Some info) p)) = Throws e'))
    \<and> (releaseResult env = None \<and> peerDisconnectResult env = None
         \<and> (shareMedia env = None \<or> shareMedia env = Some None) \<longrightarrow>
         fst (Room_left env (Some s) (Some info) p) =
           map PeopleEffect (fst (People_closeAll (closeResult env) p))
             @ [MediaRelease, PeerDisconnect]
             @ (if shareMedia env = None then [] else [ShareMediaDestroy])
             @ [SocketEmit ''left-room'' (room_id info)]
         \<and> (emitResult env = Some e \<longrightarrow>
               (\<exists>e'. snd (snd (Room_left env (Some s) (Some info) p)) = Throws e'))
         \<and> (emitResult env = None \<longrightarrow>
               snd (snd (Room_left env (Some s) (Some info) p)) = Returns True))
    \<and> Room_left_ack s = (fst (disconnect s), None, Returns ())
    \<and> SocketClose \<in> set (fst (disconnect s))"
proof -
  have c: "\<And>x. \<exists>e'. left_catch env x = Throws e'"
    by (simp add: left_catch_def split: parent_binding.splits)
  have g: "\<not> (\<not> (case Some s of None \<Rightarrow> False | Some s \<Rightarrow> isConnected s)
             \<or> (case Some info of None \<Rightarrow> True | Some info \<Rightarrow> room_id info = []))"
    using assms by simp
  show ?thesis
    using c Room_left_ack_closes[OF assms(1)] assms
    by (auto simp: Room_left_def Let_def split_beta split: option.splits)
qed

theorem C5_left_stops_at_first_failure_witness:
  "isConnected connected_channel
   \<and> room_id room_two \<noteq> []
   \<and> Room_left env_ok (Some connected_channel) (Some room_two) people_two =
      ([PeopleEffect StopShareScreen, PeopleEffect (CloseConnection 1),
        PeopleEffect (CloseConnection 2), PeopleEffect (CloseConnection 3),
        PeopleEffect (CloseConnection 4), MediaRelease, PeerDisconnect,
        SocketEmit ''left-room'' ''room-1''],
       People_setup [] [], Returns True)"
proof -
  have a: "isConnected connected_channel" by code_simp
  have b: "room_id room_two \<noteq> []" by (simp add: room_two_def)
  have e: "releaseResult env_ok = None \<and> peerDisconnectResult env_ok = None
         \<and> (shareMedia env_ok = None \<or> shareMedia env_ok = Some None)"
    "emitResult env_ok = None" "shareMedia env_ok = None" "closeResult env_ok = closes_normally"
    by (simp_all add: env_ok_def)
  have ca: "People_closeAll closes_normally people_two =
              ([StopShareScreen, CloseConnection 1, CloseConnection 2, CloseConnection 3,
                CloseConnection 4], People_setup [] [])"
    by (simp add: People_closeAll_def people_two_def People_setup_def entry_p1_def entry_p2_def
          closes_normally_def)
  note T = C5_left_stops_at_first_failure[OF a b, of env_ok people_two]
  from T have s: "fst (snd (Room_left env_ok (Some connected_channel) (Some room_two) people_two)) =
                    People_setup [] []"
    by (simp add: e ca)
  from T e have f: "fst (Room_left env_ok (Some connected_channel) (Some room_two) people_two) =
      [PeopleEffect StopShareScreen, PeopleEffect (CloseConnection 1),
        PeopleEffect (CloseConnection 2), PeopleEffect (CloseConnection 3),
        PeopleEffect (CloseConnection 4), MediaRelease, PeerDisconnect,
        SocketEmit ''left-room'' ''room-1'']"
    and r: "snd (snd (Room_left env_ok (Some connected_channel) (Some room_two) people_two)) =
              Returns True"
    by (simp_all add: ca room_two_def)
  have "Room_left env_ok (Some connected_channel) (Some room_two) people_two =
      ([PeopleEffect StopShareScreen, PeopleEffect (CloseConnection 1),
        PeopleEffect (CloseConnection 2), PeopleEffect (CloseConnection 3),
        PeopleEffect (CloseConnection 4), MediaRelease, PeerDisconnect,
        SocketEmit ''left-room'' ''room-1''],
       People_setup [] [], Returns True)"
    using s f r by (metis prod.collapse)
  with a b show ?thesis by blast
qed

text \<open>
  Claim C5 as stated fails: when \<open>Media.release()\<close> throws, the peer transport is not
  disconnected and the server is not notified, and the error is thrown at once.
\<close>

theorem C5_counterexample:
  "Room_left env_release_throws (Some connected_channel) (Some room_two) people_two =
     ([PeopleEffect StopShareScreen, PeopleEffect (CloseConnection 1),
       PeopleEffect (CloseConnection 2), PeopleEffect (CloseConnection 3),
       PeopleEffect (CloseConnection 4), MediaRelease],
      People_setup [] [], Throws (JsError ''InvalidStateError'' ''release failed''))"
proof -
  have a: "isConnected connected_channel" by code_simp
  show ?thesis
    by (simp add: Room_left_def a room_two_def env_release_throws_def env_ok_def
          People_closeAll_def people_two_def People_setup_def entry_p1_def entry_p2_def
          closes_normally_def left_catch_def)
qed

section \<open>Local media: failed acquisition\<close>

lemma grab_catch_unlisted:
  assumes "err_name error \<notin> \<Union> (set ` fst ` set mediaGrabErrors)"
  shows "grab_catch error = err_name error"
proof -
  from assms have "\<forall>x \<in> set mediaGrabErrors. err_name error \<notin> set (fst x)" by blast
  then have "find (\<lambda>e. err_name error \<in> set (fst e)) mediaGrabErrors = None"
    by (simp only: find_None_iff) blast
  then show ?thesis by (simp add: grab_catch_def js_or_def)
qed

lemma grab_catch_name:
  "grab_catch (JsError ''NotFoundError'' m) = ''required track is missing''"
  "grab_catch (JsError ''DevicesNotFoundError'' m) = ''required track is missing''"
  "grab_catch (JsError ''NotReadableError'' m) = ''webcam or mic are already in use ''"
  "grab_catch (JsError ''TrackStartError'' m) = ''webcam or mic are already in use ''"
  "grab_catch (JsError ''OverconstrainedError'' m) = ''constraints can not be satisfied by avb. devices''"
  "grab_catch (JsError ''ConstraintNotSatisfiedError'' m) = ''constraints can not be satisfied by avb. devices''"
  "grab_catch (JsError ''NotAllowedError'' m) = ''permission denied in browser''"
  "grab_catch (JsError ''PermissionDeniedError'' m) = ''permission denied in browser''"
  "grab_catch (JsError ''TypeError'' m) = ''empty constraints object''"
  by (simp_all add: grab_catch_def mediaGrabErrors_def js_or_def)

lemma grab_catch_row:
  assumes "(names, msg) \<in> set mediaGrabErrors" "err_name error \<in> set names"
  shows "grab_catch error = msg"
proof -
  obtain n m where e: "error = JsError n m" by (cases error)
  from assms(2) have n: "n \<in> set names" unfolding e by (simp only: js_error.sel)
  from assms(1) have "(names, msg) \<in>
     {([''NotFoundError'', ''DevicesNotFoundError''], ''required track is missing''),
      ([''NotReadableError'', ''TrackStartError''], ''webcam or mic are already in use ''),
      ([''OverconstrainedError'', ''ConstraintNotSatisfiedError''],
         ''constraints can not be satisfied by avb. devices''),
      ([''NotAllowedError'', ''PermissionDeniedError''], ''permission denied in browser''),
      ([''TypeError''], ''empty constraints object'')}"
    unfolding mediaGrabErrors_def by (simp only: list.set)
  then show ?thesis
    using n unfolding e
    by (elim insertE emptyE; simp only: prod.inject; elim conjE; hypsubst;
        simp only: list.set; elim insertE emptyE; hypsubst; simp only: grab_catch_name)
qed

lemma Media_grab_rejected:
  assumes "getUserMedia env = Inl error"
  shows "snd (snd (Media_grab env conns (Some d) muteVideo muteAudio st)) = Message (grab_catch error)"
  using assms by (simp add: Media_grab_def grab_begin_def grab_resume_def)

lemma Media_grab_no_devices:
  "snd (snd (Media_grab env conns None muteVideo muteAudio st)) = Message ''empty constraints object''"
  by (simp add: Media_grab_def grab_begin_def grab_catch_name)

text \<open>
  Claim C9, as amended.  When \<open>getUserMedia\<close> fails, \<open>grab\<close> does not throw but
  returns a string: the message of the table row that lists the error's name, for the
  nine names in the five rows (missing device, device in use, constraints
  unsatisfiable, permission denied, malformed constraints); and the error's name
  itself for every other error.  Missing devices count as malformed constraints.
\<close>

theorem C9_grab_returns_message_or_name:
  assumes "getUserMedia env = Inl error"
  shows "((names, msg) \<in> set mediaGrabErrors \<and> err_name error \<in> set names \<longrightarrow>
            snd (snd (Media_grab env conns (Some d) muteVideo muteAudio st)) = Message msg)
         \<and> (err_name error \<notin> \<Union> (set ` fst ` set mediaGrabErrors) \<longrightarrow>
              snd (snd (Media_grab env conns (Some d) muteVideo muteAudio st)) =
                Message (err_name error))
         \<and> snd (snd (Media_grab env conns None muteVideo muteAudio st)) =
             Message ''empty constraints object''"
  using Media_grab_rejected[OF assms] grab_catch_row[of names msg error]
    grab_catch_unlisted[of error] Media_grab_no_devices
  by presburger

theorem C9_grab_returns_message_or_name_witness:
  "getUserMedia env_denied = Inl (JsError ''NotAllowedError'' ''Permission denied'')
   \<and> ([''NotAllowedError'', ''PermissionDeniedError''], ''permission denied in browser'')
        \<in> set mediaGrabErrors
   \<and> err_name (JsError ''NotAllowedError'' ''Permission denied'')
        \<in> set [''NotAllowedError'', ''PermissionDeniedError'']
   \<and> snd (snd (Media_grab env_denied [] (Some (Devices ''cam-1'' ''mic-1'')) False False camera_off)) =
       Message ''permission denied in browser''"
proof -
  have a: "getUserMedia env_denied = Inl (JsError ''NotAllowedError'' ''Permission denied'')"
    by (simp add: env_denied_def env_stream_def)
  have b: "([''NotAllowedError'', ''PermissionDeniedError''], ''permission denied in browser'')
             \<in> set mediaGrabErrors
           \<and> err_name (JsError ''NotAllowedError'' ''Permission denied'')
             \<in> set [''NotAllowedError'', ''PermissionDeniedError'']"
    by (simp add: mediaGrabErrors_def)
  from C9_grab_returns_message_or_name[OF a, THEN conjunct1, rule_format, OF b] a b
  show ?thesis by blast
qed

text \<open>
  Claim C9 as stated fails for an error outside the table: for an \<open>AbortError\<close> of
  \<open>getUserMedia\<close>, \<open>grab\<close> returns the string \<open>AbortError\<close>, which is none of the five
  messages.
\<close>

theorem C9_counterexample:
  "snd (snd (Media_grab env_abort [] (Some (Devices ''cam-1'' ''mic-1'')) False False camera_off)) =
     Message ''AbortError''
   \<and> ''AbortError'' \<notin> set (map snd mediaGrabErrors)"
  by (simp add: Media_grab_def grab_begin_def grab_resume_def env_abort_def env_stream_def
        grab_catch_def mediaGrabErrors_def js_or_def)

section \<open>Local media: mute toggles and track calls\<close>

lemma track_calls_append [simp]: "track_calls (xs @ ys) = track_calls xs @ track_calls ys"
  by (simp add: track_calls_def)

lemma track_calls_Cons:
  "track_calls (e # xs) = (if is_track_call e then e # track_calls xs else track_calls xs)"
  by (simp add: track_calls_def)

lemma track_calls_Nil [simp]: "track_calls [] = []"
  by (simp add: track_calls_def)

lemma track_calls_sends [simp]:
  "track_calls (Media_sendUserMediaMuteStatusByDataConnection v a conns) = []"
  by (induction conns) (simp_all add: Media_sendUserMediaMuteStatusByDataConnection_def track_calls_Cons)

lemma track_calls_audio_branch [simp]: "track_calls (fst (terminate_audio_branch conns st)) = []"
  by (simp add: terminate_audio_branch_def track_calls_Cons split: option.splits)










end
